theory Spec2Isabelle
  imports Complex_Main "HOL-Library.Multiset"
begin

section \<open>Python values, exceptions and output\<close>

text \<open>
  The source is \<^verbatim>\<open>src/preprocessing/gather_data.py\<close>, the class
  \<^verbatim>\<open>YouTubeDataFetcher\<close>. An exception is a value: a function of the source that
  can raise returns \<open>exn + 'a\<close>, with \<open>Inl\<close> for the exception. Only subclasses of
  \<^verbatim>\<open>Exception\<close> are modelled (what \<^verbatim>\<open>except Exception\<close> catches).
\<close>

datatype exn =
    HttpError string
  | KeyError string
  | IndexError
  | ValueError string
  | TypeError string

text \<open>Sequencing of two steps, the second of which runs only when the first did not raise.\<close>

definition and_then :: "exn + 'a \<Rightarrow> ('a \<Rightarrow> exn + 'b) \<Rightarrow> exn + 'b" where
  "and_then m f = (case m of Inl e \<Rightarrow> Inl e | Inr x \<Rightarrow> f x)"

text \<open>
  \<^verbatim>\<open>d[k]\<close> on a response dictionary: a field the source reads this way is an
  \<open>option\<close> in the response records below, and an absent field raises KeyError.
\<close>

definition getitem :: "string \<Rightarrow> 'a option \<Rightarrow> exn + 'a" where
  "getitem k v = (case v of None \<Rightarrow> Inl (KeyError k) | Some x \<Rightarrow> Inr x)"

text \<open>\<^verbatim>\<open>d.get(k, default)\<close>.\<close>

definition get_default :: "'a option \<Rightarrow> 'a \<Rightarrow> 'a" where
  "get_default v d = (case v of None \<Rightarrow> d | Some x \<Rightarrow> x)"

text \<open>Truth value of an optional string: None and the empty string are false.\<close>

definition truthy :: "string option \<Rightarrow> bool" where
  "truthy v = (case v of None \<Rightarrow> False | Some s \<Rightarrow> s \<noteq> [])"

text \<open>
  A line written to standard output by \<^verbatim>\<open>print(f"<prefix>{e}")\<close>: the literal
  prefix and the exception that is interpolated.
\<close>

datatype log_line = Log string exn

text \<open>\<^verbatim>\<open>int(x)\<close> of a finite float: truncation towards zero.\<close>

definition int_of_float :: "real \<Rightarrow> int" where
  "int_of_float x = (if 0 \<le> x then \<lfloor>x\<rfloor> else \<lceil>x\<rceil>)"

text \<open>\<^verbatim>\<open>str(n)\<close> of an integer, in decimal.\<close>

fun str_nat :: "nat \<Rightarrow> string" where
  "str_nat n =
     (if n < 10 then [char_of (48 + n)]
      else str_nat (n div 10) @ [char_of (48 + n mod 10)])"

declare str_nat.simps [simp del]

definition str_int :: "int \<Rightarrow> string" where
  "str_int i = (if i < 0 then CHR ''-'' # str_nat (nat (- i)) else str_nat (nat i))"

text \<open>\<^verbatim>\<open>str(x)\<close> of the result of \<^verbatim>\<open>dict.get\<close>: an integer or None.\<close>

definition str_opt_int :: "int option \<Rightarrow> string" where
  "str_opt_int v = (case v of None \<Rightarrow> ''None'' | Some i \<Rightarrow> str_int i)"

text \<open>\<^verbatim>\<open>sep.join(xs)\<close>.\<close>

fun join :: "string \<Rightarrow> string list \<Rightarrow> string" where
  "join sep [] = []"
| "join sep [x] = x"
| "join sep (x # y # ys) = x @ sep @ join sep (y # ys)"

section \<open>Library functions the source calls\<close>

text \<open>
  The builtin \<^verbatim>\<open>int\<close> on strings, \<^verbatim>\<open>isodate.parse_duration\<close> and
  \<^verbatim>\<open>numpy.random.normal\<close> are not code of the repository; they are parameters.
  \<^item> \<open>py_int s\<close> is \<^verbatim>\<open>int(s)\<close> for a string \<open>s\<close>;
  \<^item> \<open>duration_total_seconds s\<close> is
    \<^verbatim>\<open>isodate.parse_duration(s).total_seconds()\<close>, a finite float, or the exception
    the parser raises on a string it rejects;
  \<^item> \<open>random_normal mu sigma n\<close> is \<^verbatim>\<open>np.random.normal(mu, sigma, n)\<close>, the
    array of floats drawn.
  Finite floats are real numbers; clipping and truncation are exact on them.
\<close>

record pylib =
  py_int :: "string \<Rightarrow> exn + int"
  duration_total_seconds :: "string \<Rightarrow> exn + real"
  random_normal :: "real \<Rightarrow> real \<Rightarrow> int \<Rightarrow> exn + real list"

section \<open>The responses of the video platform API\<close>

text \<open>
  One record for each response shape the source reads. A field read with
  \<^verbatim>\<open>d[k]\<close> is an option (absent: KeyError); nested reads such as
  \<^verbatim>\<open>item['id']['videoId']\<close> are one field, absent when any level is.
\<close>

record channel_search_item =
  csi_id_channel_id :: "string option"        \<comment> \<open>\<^verbatim>\<open>item['id']['channelId']\<close>\<close>
  csi_snippet_channel_id :: "string option"   \<comment> \<open>\<^verbatim>\<open>item['snippet']['channelId']\<close>\<close>
  csi_title :: "string option"                \<comment> \<open>\<^verbatim>\<open>item['snippet']['title']\<close>\<close>
  csi_description :: "string option"          \<comment> \<open>\<^verbatim>\<open>item['snippet']['description']\<close>\<close>

record channel_search_response =
  csr_items :: "channel_search_item list option"   \<comment> \<open>\<^verbatim>\<open>response['items']\<close>\<close>
  csr_next_page_token :: "string option"           \<comment> \<open>\<^verbatim>\<open>response.get('nextPageToken')\<close>\<close>

record search_item =
  si_video_id :: "string option"        \<comment> \<open>\<^verbatim>\<open>item['id']['videoId']\<close>\<close>
  si_title :: "string option"           \<comment> \<open>\<^verbatim>\<open>item['snippet']['title']\<close>\<close>
  si_description :: "string option"     \<comment> \<open>\<^verbatim>\<open>item['snippet']['description']\<close>\<close>
  si_published_at :: "string option"    \<comment> \<open>\<^verbatim>\<open>item['snippet']['publishedAt']\<close>\<close>
  si_thumbnail_url :: "string option"   \<comment> \<open>\<^verbatim>\<open>item['snippet']['thumbnails']['high']['url']\<close>\<close>

record search_response =
  sr_items :: "search_item list option"   \<comment> \<open>\<^verbatim>\<open>response.get('items', [])\<close>\<close>
  sr_next_page_token :: "string option"   \<comment> \<open>\<^verbatim>\<open>response.get('nextPageToken')\<close>\<close>

record statistics =
  st_view_count :: "string option"      \<comment> \<open>\<^verbatim>\<open>.get('viewCount', 0)\<close>\<close>
  st_like_count :: "string option"      \<comment> \<open>\<^verbatim>\<open>.get('likeCount', 0)\<close>\<close>
  st_comment_count :: "string option"   \<comment> \<open>\<^verbatim>\<open>.get('commentCount', 0)\<close>\<close>

record video_info =
  vi_category_id :: "string option"            \<comment> \<open>\<^verbatim>\<open>video_info['snippet']['categoryId']\<close>\<close>
  vi_duration :: "string option"               \<comment> \<open>\<^verbatim>\<open>video_info['contentDetails']['duration']\<close>\<close>
  vi_statistics :: "statistics option"         \<comment> \<open>\<^verbatim>\<open>video_info['statistics']\<close>\<close>
  vi_tags :: "string list option"              \<comment> \<open>\<^verbatim>\<open>video_info['snippet'].get('tags', [])\<close>\<close>
  vi_default_language :: "string option"       \<comment> \<open>\<^verbatim>\<open>.get('defaultLanguage', 'Unknown')\<close>\<close>
  vi_default_audio_language :: "string option" \<comment> \<open>\<^verbatim>\<open>.get('defaultAudioLanguage', 'Unknown')\<close>\<close>

record videos_response =
  vr_items :: "video_info list option"   \<comment> \<open>\<^verbatim>\<open>stats_response['items']\<close>\<close>

record channel_resource =
  cr_id :: "string option"                 \<comment> \<open>\<^verbatim>\<open>channel['id']\<close>\<close>
  cr_title :: "string option"              \<comment> \<open>\<^verbatim>\<open>channel['snippet']['title']\<close>\<close>
  cr_subscriber_count :: "string option"   \<comment> \<open>\<^verbatim>\<open>channel['statistics']['subscriberCount']\<close>\<close>
  cr_video_count :: "string option"        \<comment> \<open>\<^verbatim>\<open>channel['statistics']['videoCount']\<close>\<close>
  cr_view_count :: "string option"         \<comment> \<open>\<^verbatim>\<open>channel['statistics']['viewCount']\<close>\<close>

record channels_response =
  chr_items :: "channel_resource list option"   \<comment> \<open>\<^verbatim>\<open>channel_response['items']\<close>\<close>

record category_item =
  cat_id :: "string option"      \<comment> \<open>\<^verbatim>\<open>category['id']\<close>\<close>
  cat_title :: "string option"   \<comment> \<open>\<^verbatim>\<open>category['snippet']['title']\<close>\<close>

record categories_response =
  cats_items :: "category_item list option"   \<comment> \<open>\<^verbatim>\<open>response.get('items', [])\<close>\<close>

text \<open>The request of the video search in the page loop of \<^verbatim>\<open>fetch_channel_videos\<close>.\<close>

record video_search_request =
  rq_channel_id :: string
  rq_max_results :: int
  rq_published_after :: string
  rq_published_before :: string
  rq_page_token :: "string option"

text \<open>
  The client \<^verbatim>\<open>self.youtube\<close>: one function for each request the source builds and
  executes; the result is the response, or the exception that \<^verbatim>\<open>execute()\<close> raises.
\<close>

record youtube =
  search_channel_by_name :: "string \<Rightarrow> exn + channel_search_response"
    \<comment> \<open>\<^verbatim>\<open>search().list(part='id,snippet', q=channel_name, type='channel', maxResults=1)\<close>\<close>
  search_channel_videos :: "video_search_request \<Rightarrow> exn + search_response"
    \<comment> \<open>\<^verbatim>\<open>search().list(part='id,snippet', channelId=.., type='video', order='date', ..)\<close>\<close>
  videos_list :: "string \<Rightarrow> string \<Rightarrow> exn + videos_response"
    \<comment> \<open>\<^verbatim>\<open>videos().list(part=.., id=..)\<close>\<close>
  channels_list :: "string \<Rightarrow> string \<Rightarrow> exn + channels_response"
    \<comment> \<open>\<^verbatim>\<open>channels().list(part=.., id=..)\<close>\<close>
  comment_threads_list :: "string \<Rightarrow> exn + unit"
    \<comment> \<open>\<^verbatim>\<open>commentThreads().list(part='snippet', videoId=.., maxResults=1)\<close>; the response is not read\<close>
  video_categories_list :: "string \<Rightarrow> string \<Rightarrow> exn + categories_response"
    \<comment> \<open>\<^verbatim>\<open>videoCategories().list(part=.., regionCode=..)\<close>\<close>
  search_category_channels :: "string \<Rightarrow> int \<Rightarrow> exn + channel_search_response"
    \<comment> \<open>\<^verbatim>\<open>search().list(part='snippet', type='channel', regionCode='US', videoCategoryId=.., maxResults=..)\<close>\<close>
  search_top_channels :: "string \<Rightarrow> string option \<Rightarrow> exn + channel_search_response"
    \<comment> \<open>\<^verbatim>\<open>search().list(part='snippet', maxResults=50, type='channel', videoCategoryId=.., order='viewCount', pageToken=..)\<close>\<close>

section \<open>The category table\<close>

definition category_table :: "(string \<times> int) list" where
  "category_table =
     [(''film_animation'', 1), (''autos'', 2), (''music'', 10), (''pets_animals'', 15),
      (''sports'', 17), (''gaming'', 20), (''blogging'', 22), (''comedy'', 23),
      (''entertainment'', 24), (''news_politics'', 25), (''howto_style'', 26),
      (''education'', 27), (''science_tech'', 28), (''nonprofits'', 29)]"

text \<open>\<^verbatim>\<open>self.category_ids.get(name)\<close>.\<close>

definition category_ids :: "string \<Rightarrow> int option" where
  "category_ids = map_of category_table"

text \<open>
  \<^verbatim>\<open>category_names = {str(v): k for k, v in self.category_ids.items()}\<close>; a later entry
  of a dict comprehension replaces an earlier one with the same key.
\<close>

definition category_names :: "string \<Rightarrow> string option" where
  "category_names = map_of (rev (map (\<lambda>(k, v). (str_int v, k)) category_table))"

section \<open>get_channel_id and get_video_category\<close>

definition get_channel_id_try :: "youtube \<Rightarrow> string \<Rightarrow> exn + string option" where
  "get_channel_id_try api channel_name =
     and_then (search_channel_by_name api channel_name) (\<lambda>response.
     and_then (getitem ''items'' (csr_items response)) (\<lambda>items.
       case items of
         [] \<Rightarrow> Inr None
       | first # _ \<Rightarrow>
           and_then (getitem ''channelId'' (csi_id_channel_id first)) (\<lambda>cid. Inr (Some cid))))"

text \<open>The result is the text printed and what the caller receives.\<close>

definition get_channel_id :: "youtube \<Rightarrow> string \<Rightarrow> log_line list \<times> (exn + string option)" where
  "get_channel_id api channel_name =
     (case get_channel_id_try api channel_name of
        Inl e \<Rightarrow> ([Log ''Error finding channel ID: '' e], Inr None)
      | Inr r \<Rightarrow> ([], Inr r))"

definition get_video_category_try :: "youtube \<Rightarrow> string \<Rightarrow> exn + string option" where
  "get_video_category_try api video_id =
     and_then (videos_list api ''snippet'' video_id) (\<lambda>response.
     and_then (getitem ''items'' (vr_items response)) (\<lambda>items.
       case items of
         [] \<Rightarrow> Inr None
       | first # _ \<Rightarrow>
           and_then (getitem ''categoryId'' (vi_category_id first)) (\<lambda>c. Inr (Some c))))"

definition get_video_category :: "youtube \<Rightarrow> string \<Rightarrow> log_line list \<times> (exn + string option)" where
  "get_video_category api video_id =
     (case get_video_category_try api video_id of
        Inl e \<Rightarrow> ([Log ''Error getting video category: '' e], Inr None)
      | Inr r \<Rightarrow> ([], Inr r))"

section \<open>Duration decoding\<close>

text \<open>
  \<^verbatim>\<open>_parse_duration\<close>: the bare \<^verbatim>\<open>except\<close> turns every exception into 0.
\<close>

definition parse_duration :: "pylib \<Rightarrow> string \<Rightarrow> int" where
  "parse_duration lib duration_str =
     (case duration_total_seconds lib duration_str of
        Inl e \<Rightarrow> 0
      | Inr secs \<Rightarrow> int_of_float secs)"

section \<open>The Video Collector: fetch_channel_videos\<close>

text \<open>One row of the returned table: the dictionary appended to \<^verbatim>\<open>video_details\<close>.\<close>

record video_record =
  video_id :: string
  title :: string
  description :: string
  published_at :: string
  thumbnail_url :: string
  views :: int
  likes :: int
  comments_count :: int
  current_subscriber_count :: int
  duration_seconds :: int
  comments_enabled :: bool
  category_id :: string
  category_name :: string
  tags :: "string list"
  default_language :: string
  default_audio_language :: string

text \<open>
  \<^verbatim>\<open>target_category_id = str(self.category_ids.get(category)) if category else None\<close>:
  the condition is the truth value of \<^verbatim>\<open>category\<close>, so None and the empty string
  both give None.
\<close>

definition target_category_id :: "string option \<Rightarrow> string option" where
  "target_category_id category =
     (if truthy category then Some (str_opt_int (category_ids (the category))) else None)"

text \<open>
  The subscriber count, fetched once before the loop; every exception is printed and
  replaced by 0.
\<close>

definition fetch_subscriber_count_try :: "youtube \<Rightarrow> pylib \<Rightarrow> string \<Rightarrow> exn + int" where
  "fetch_subscriber_count_try api lib channel_id =
     and_then (channels_list api ''statistics'' channel_id) (\<lambda>channel_response.
     and_then (getitem ''items'' (chr_items channel_response)) (\<lambda>items.
       case items of
         [] \<Rightarrow> Inl IndexError
       | first # _ \<Rightarrow>
           and_then (getitem ''subscriberCount'' (cr_subscriber_count first)) (py_int lib)))"

definition fetch_subscriber_count :: "youtube \<Rightarrow> pylib \<Rightarrow> string \<Rightarrow> log_line list \<times> int" where
  "fetch_subscriber_count api lib channel_id =
     (case fetch_subscriber_count_try api lib channel_id of
        Inl e \<Rightarrow> ([Log ''Error fetching channel statistics: '' e], 0)
      | Inr n \<Rightarrow> ([], n))"

text \<open>What stays fixed while the page loop runs.\<close>

record fetch_env =
  fe_channel_id :: string
  fe_published_after :: string
  fe_published_before :: string
  fe_max_videos :: int
  fe_target_category_id :: "string option"
  fe_subscriber_count :: int

text \<open>\<^verbatim>\<open>int(video_info['statistics'].get(key, 0))\<close>.\<close>

definition int_statistic :: "pylib \<Rightarrow> video_info \<Rightarrow> (statistics \<Rightarrow> string option) \<Rightarrow> exn + int" where
  "int_statistic lib video_info field =
     and_then (getitem ''statistics'' (vi_statistics video_info)) (\<lambda>stats.
       case field stats of None \<Rightarrow> Inr 0 | Some s \<Rightarrow> py_int lib s)"

text \<open>The dictionary literal of lines 185 to 202, its entries evaluated in order.\<close>

definition build_record ::
  "pylib \<Rightarrow> fetch_env \<Rightarrow> search_item \<Rightarrow> video_info \<Rightarrow> string \<Rightarrow> string \<Rightarrow> int \<Rightarrow> bool
     \<Rightarrow> exn + video_record" where
  "build_record lib env item video_info vid video_category_id duration has_comments_enabled =
     and_then (getitem ''title'' (si_title item)) (\<lambda>t.
     and_then (getitem ''description'' (si_description item)) (\<lambda>d.
     and_then (getitem ''publishedAt'' (si_published_at item)) (\<lambda>p.
     and_then (getitem ''url'' (si_thumbnail_url item)) (\<lambda>u.
     and_then (int_statistic lib video_info st_view_count) (\<lambda>v.
     and_then (int_statistic lib video_info st_like_count) (\<lambda>l.
     and_then (int_statistic lib video_info st_comment_count) (\<lambda>c.
       Inr \<lparr> video_id = vid, title = t, description = d, published_at = p,
             thumbnail_url = u, views = v, likes = l, comments_count = c,
             current_subscriber_count = fe_subscriber_count env,
             duration_seconds = duration,
             comments_enabled = has_comments_enabled,
             category_id = video_category_id,
             category_name = get_default (category_names video_category_id) ''Unknown'',
             tags = get_default (vi_tags video_info) [],
             default_language = get_default (vi_default_language video_info) ''Unknown'',
             default_audio_language =
               get_default (vi_default_audio_language video_info) ''Unknown'' \<rparr>)))))))"

text \<open>
  The comment probe: its own bare \<^verbatim>\<open>except\<close> turns every exception of the call into
  \<^verbatim>\<open>has_comments_enabled = False\<close>, and prints nothing.
\<close>

definition probe_comments :: "youtube \<Rightarrow> string \<Rightarrow> bool" where
  "probe_comments api vid =
     (case comment_threads_list api vid of Inl e \<Rightarrow> False | Inr u \<Rightarrow> True)"

text \<open>
  The body of the \<^verbatim>\<open>for\<close> loop for one item (lines 153 to 202): an exception, no
  record (empty detail list, or the category filter), or the record to append.
\<close>

definition process_item :: "youtube \<Rightarrow> pylib \<Rightarrow> fetch_env \<Rightarrow> search_item \<Rightarrow> exn + video_record option" where
  "process_item api lib env item =
     and_then (getitem ''videoId'' (si_video_id item)) (\<lambda>vid.
     and_then (videos_list api ''statistics,snippet,contentDetails'' vid) (\<lambda>stats_response.
     and_then (getitem ''items'' (vr_items stats_response)) (\<lambda>items.
       case items of
         [] \<Rightarrow> Inr None
       | video_info # _ \<Rightarrow>
           and_then (getitem ''categoryId'' (vi_category_id video_info)) (\<lambda>video_category_id.
             if truthy (fe_target_category_id env)
                \<and> Some video_category_id \<noteq> fe_target_category_id env
             then Inr None
             else
               and_then (getitem ''duration'' (vi_duration video_info)) (\<lambda>duration_str.
                 and_then
                   (build_record lib env item video_info vid video_category_id
                      (parse_duration lib duration_str) (probe_comments api vid))
                   (\<lambda>r. Inr (Some r)))))))"

text \<open>How the \<^verbatim>\<open>for\<close> loop over the items of a page ends.\<close>

datatype for_exit = Exhausted | Break | Raised exn

fun process_items ::
  "youtube \<Rightarrow> pylib \<Rightarrow> fetch_env \<Rightarrow> video_record list \<Rightarrow> search_item list
     \<Rightarrow> for_exit \<times> video_record list" where
  "process_items api lib env video_details [] = (Exhausted, video_details)"
| "process_items api lib env video_details (item # items) =
     (case process_item api lib env item of
        Inl e \<Rightarrow> (Raised e, video_details)
      | Inr None \<Rightarrow> process_items api lib env video_details items
      | Inr (Some r) \<Rightarrow>
          (if int (length (video_details @ [r])) \<ge> fe_max_videos env
           then (Break, video_details @ [r])
           else process_items api lib env (video_details @ [r]) items))"

definition page_request :: "fetch_env \<Rightarrow> video_record list \<Rightarrow> string option \<Rightarrow> video_search_request" where
  "page_request env video_details next_page_token =
     \<lparr> rq_channel_id = fe_channel_id env,
       rq_max_results = min 50 (fe_max_videos env - int (length video_details)),
       rq_published_after = fe_published_after env,
       rq_published_before = fe_published_before env,
       rq_page_token = next_page_token \<rparr>"

text \<open>
  The \<^verbatim>\<open>while\<close> loop of lines 137 to 209 inside its \<^verbatim>\<open>try\<close>. The result is
  \<^verbatim>\<open>video_details\<close> when the loop is left, and the exception that left it, if
  one did. The loop runs for as long as the API hands out page tokens, so it need not
  end: None is a run that never returns.
\<close>

partial_function (option) fetch_loop ::
  "youtube \<Rightarrow> pylib \<Rightarrow> fetch_env \<Rightarrow> video_record list \<Rightarrow> string option
     \<Rightarrow> (video_record list \<times> exn option) option" where
  "fetch_loop api lib env video_details next_page_token =
     (if int (length video_details) < fe_max_videos env then
        (case search_channel_videos api (page_request env video_details next_page_token) of
           Inl e \<Rightarrow> Some (video_details, Some e)
         | Inr response \<Rightarrow>
             (case process_items api lib env video_details (get_default (sr_items response) []) of
                (Raised e, video_details') \<Rightarrow> Some (video_details', Some e)
              | (Exhausted, video_details') \<Rightarrow>
                  (if truthy (sr_next_page_token response)
                   then fetch_loop api lib env video_details' (sr_next_page_token response)
                   else Some (video_details', None))
              | (Break, video_details') \<Rightarrow>
                  (if truthy (sr_next_page_token response)
                   then fetch_loop api lib env video_details' (sr_next_page_token response)
                   else Some (video_details', None))))
      else Some (video_details, None))"

declare fetch_loop.simps [code]

text \<open>
  \<^verbatim>\<open>fetch_channel_videos\<close>. The two dates arrive already formatted
  (\<^verbatim>\<open>published_after\<close>, \<^verbatim>\<open>published_before\<close>): their defaults read the clock.
  The result is the text printed and the table returned, a list of rows.
\<close>

definition initial_env ::
  "youtube \<Rightarrow> pylib \<Rightarrow> string \<Rightarrow> string \<Rightarrow> string \<Rightarrow> int \<Rightarrow> string option \<Rightarrow> fetch_env" where
  "initial_env api lib channel_id published_after published_before max_videos category =
     \<lparr> fe_channel_id = channel_id,
       fe_published_after = published_after,
       fe_published_before = published_before,
       fe_max_videos = max_videos,
       fe_target_category_id = target_category_id category,
       fe_subscriber_count = snd (fetch_subscriber_count api lib channel_id) \<rparr>"

definition fetch_channel_videos ::
  "youtube \<Rightarrow> pylib \<Rightarrow> string \<Rightarrow> string \<Rightarrow> string \<Rightarrow> int \<Rightarrow> string option
     \<Rightarrow> (log_line list \<times> (exn + video_record list)) option" where
  "fetch_channel_videos api lib channel_id published_after published_before max_videos category =
     (case fetch_loop api lib
             (initial_env api lib channel_id published_after published_before max_videos category)
             [] None of
        None \<Rightarrow> None
      | Some (video_details, raised) \<Rightarrow>
          Some (fst (fetch_subscriber_count api lib channel_id) @
                  (case raised of
                     None \<Rightarrow> []
                   | Some e \<Rightarrow> [Log ''Error fetching videos: '' e]),
                Inr video_details))"

text \<open>
  The rows a run of the \<^verbatim>\<open>for\<close> loop appends for a list of items none of which
  raises: the records of the items that are not skipped, in order.
\<close>

definition records_of :: "youtube \<Rightarrow> pylib \<Rightarrow> fetch_env \<Rightarrow> search_item list \<Rightarrow> video_record list" where
  "records_of api lib env items =
     concat (map (\<lambda>item. case process_item api lib env item of
                            Inr (Some r) \<Rightarrow> [r] | _ \<Rightarrow> []) items)"

text \<open>The number of rows of a returned table; None when nothing is returned.\<close>

definition row_count :: "(log_line list \<times> (exn + 'a list)) option \<Rightarrow> nat option" where
  "row_count res = (case res of Some (out, Inr rows) \<Rightarrow> Some (length rows) | _ \<Rightarrow> None)"

section \<open>The Category Directory and the channel search\<close>

text \<open>
  \<^verbatim>\<open>get_guide_categories\<close> and \<^verbatim>\<open>search_channels_by_category\<close> have no
  \<^verbatim>\<open>try\<close>: what the request raises reaches the caller. Neither prints.
\<close>

fun build_categories :: "category_item list \<Rightarrow> (string \<rightharpoonup> string) \<Rightarrow> exn + (string \<rightharpoonup> string)" where
  "build_categories [] categories = Inr categories"
| "build_categories (category # rest) categories =
     and_then (getitem ''id'' (cat_id category)) (\<lambda>k.
     and_then (getitem ''title'' (cat_title category)) (\<lambda>v.
       build_categories rest (categories(k \<mapsto> v))))"

definition get_guide_categories ::
  "youtube \<Rightarrow> string \<Rightarrow> string \<Rightarrow> log_line list \<times> (exn + (string \<rightharpoonup> string))" where
  "get_guide_categories api part region_code =
     ([], and_then (video_categories_list api part region_code) (\<lambda>response.
            build_categories (get_default (cats_items response) []) Map.empty))"

record channel_hit =
  hit_channel_id :: string
  hit_channel_title :: string
  hit_description :: string

fun build_hits :: "channel_search_item list \<Rightarrow> channel_hit list \<Rightarrow> exn + channel_hit list" where
  "build_hits [] channels = Inr channels"
| "build_hits (item # rest) channels =
     and_then (getitem ''channelId'' (csi_snippet_channel_id item)) (\<lambda>c.
     and_then (getitem ''title'' (csi_title item)) (\<lambda>t.
     and_then (getitem ''description'' (csi_description item)) (\<lambda>d.
       build_hits rest
         (channels @ [\<lparr> hit_channel_id = c, hit_channel_title = t, hit_description = d \<rparr>]))))"

definition search_channels_by_category ::
  "youtube \<Rightarrow> string \<Rightarrow> int \<Rightarrow> log_line list \<times> (exn + channel_hit list)" where
  "search_channels_by_category api category max_results =
     ([], and_then (search_category_channels api category max_results) (\<lambda>response.
            build_hits (get_default (csr_items response) []) []))"

section \<open>The Channel Sampler: get_top_channels_by_category\<close>

record channel_summary =
  ch_channel_id :: string
  ch_title :: string
  ch_subscriber_count :: int
  ch_video_count :: int
  ch_view_count :: int

text \<open>The dictionary literal of lines 340 to 346.\<close>

definition build_channel :: "pylib \<Rightarrow> channel_resource \<Rightarrow> exn + channel_summary" where
  "build_channel lib channel =
     and_then (getitem ''id'' (cr_id channel)) (\<lambda>c.
     and_then (getitem ''title'' (cr_title channel)) (\<lambda>t.
     and_then (and_then (getitem ''subscriberCount'' (cr_subscriber_count channel)) (py_int lib)) (\<lambda>s.
     and_then (and_then (getitem ''videoCount'' (cr_video_count channel)) (py_int lib)) (\<lambda>v.
     and_then (and_then (getitem ''viewCount'' (cr_view_count channel)) (py_int lib)) (\<lambda>w.
       Inr \<lparr> ch_channel_id = c, ch_title = t, ch_subscriber_count = s,
             ch_video_count = v, ch_view_count = w \<rparr>)))))"

text \<open>
  The \<^verbatim>\<open>for\<close> loop of lines 339 to 346: the channels appended before an exception
  stay in the list.
\<close>

fun append_channels ::
  "pylib \<Rightarrow> channel_summary list \<Rightarrow> channel_resource list \<Rightarrow> channel_summary list \<times> exn option" where
  "append_channels lib channels [] = (channels, None)"
| "append_channels lib channels (channel # rest) =
     (case build_channel lib channel of
        Inl e \<Rightarrow> (channels, Some e)
      | Inr c \<Rightarrow> append_channels lib (channels @ [c]) rest)"

text \<open>\<^verbatim>\<open>[item['snippet']['channelId'] for item in response['items']]\<close>.\<close>

fun channel_ids_of :: "channel_search_item list \<Rightarrow> exn + string list" where
  "channel_ids_of [] = Inr []"
| "channel_ids_of (item # rest) =
     and_then (getitem ''channelId'' (csi_snippet_channel_id item)) (\<lambda>c.
     and_then (channel_ids_of rest) (\<lambda>cs. Inr (c # cs)))"

text \<open>
  The body of the \<^verbatim>\<open>try\<close> of one page (lines 321 to 350): the list of channels
  afterwards, and the exception raised or the next page token.
\<close>

definition sampler_page ::
  "youtube \<Rightarrow> pylib \<Rightarrow> string \<Rightarrow> channel_summary list \<Rightarrow> string option
     \<Rightarrow> channel_summary list \<times> (exn + string option)" where
  "sampler_page api lib category channels next_page_token =
     (case search_top_channels api category next_page_token of
        Inl e \<Rightarrow> (channels, Inl e)
      | Inr response \<Rightarrow>
          (case and_then (getitem ''items'' (csr_items response)) channel_ids_of of
             Inl e \<Rightarrow> (channels, Inl e)
           | Inr channel_ids \<Rightarrow>
               (case and_then (channels_list api ''statistics,snippet'' (join '','' channel_ids))
                       (\<lambda>channel_response. getitem ''items'' (chr_items channel_response)) of
                  Inl e \<Rightarrow> (channels, Inl e)
                | Inr resources \<Rightarrow>
                    (case append_channels lib channels resources of
                       (channels', Some e) \<Rightarrow> (channels', Inl e)
                     | (channels', None) \<Rightarrow> (channels', Inr (csr_next_page_token response))))))"

text \<open>The \<^verbatim>\<open>while\<close> loop of lines 319 to 354; None is a run that never returns.\<close>

partial_function (option) collect_channels ::
  "youtube \<Rightarrow> pylib \<Rightarrow> string \<Rightarrow> int \<Rightarrow> channel_summary list \<Rightarrow> string option
     \<Rightarrow> (log_line list \<times> channel_summary list) option" where
  "collect_channels api lib category sample_size channels next_page_token =
     (if int (length channels) < sample_size * 2 then
        (case sampler_page api lib category channels next_page_token of
           (channels', Inl e) \<Rightarrow> Some ([Log ''Error fetching channels: '' e], channels')
         | (channels', Inr next_token) \<Rightarrow>
             (if truthy next_token
              then collect_channels api lib category sample_size channels' next_token
              else Some ([], channels')))
      else Some ([], channels))"

declare collect_channels.simps [code]

text \<open>
  \<^verbatim>\<open>channels.sort(key=lambda x: x['subscriber_count'], reverse=True)\<close>: a stable sort,
  largest subscriber count first.
\<close>

definition sort_by_subscribers :: "channel_summary list \<Rightarrow> channel_summary list" where
  "sort_by_subscribers channels = sort_key (\<lambda>c. - ch_subscriber_count c) channels"

text \<open>\<^verbatim>\<open>np.clip(x, lo, hi)\<close>, which is \<^verbatim>\<open>minimum(maximum(x, lo), hi)\<close>.\<close>

definition clip :: "real \<Rightarrow> real \<Rightarrow> real \<Rightarrow> real" where
  "clip x lo hi = min (max x lo) hi"

text \<open>\<^verbatim>\<open>np.unique\<close>: the distinct values, ascending.\<close>

definition unique :: "int list \<Rightarrow> int list" where
  "unique xs = sort (remdups xs)"

text \<open>\<^verbatim>\<open>xs[i]\<close> on a list: a negative index counts from the end.\<close>

definition py_index :: "'a list \<Rightarrow> int \<Rightarrow> exn + 'a" where
  "py_index xs i =
     (if 0 \<le> i \<and> i < int (length xs) then Inr (xs ! nat i)
      else if i < 0 \<and> - int (length xs) \<le> i then Inr (xs ! nat (int (length xs) + i))
      else Inl IndexError)"

text \<open>\<^verbatim>\<open>[xs[i] for i in indices]\<close>.\<close>

fun index_all :: "'a list \<Rightarrow> int list \<Rightarrow> exn + 'a list" where
  "index_all xs [] = Inr []"
| "index_all xs (i # rest) =
     and_then (py_index xs i) (\<lambda>x.
     and_then (index_all xs rest) (\<lambda>ys. Inr (x # ys)))"

text \<open>\<^verbatim>\<open>xs[:k]\<close>: a negative bound counts from the end.\<close>

definition py_take :: "int \<Rightarrow> 'a list \<Rightarrow> 'a list" where
  "py_take k xs = (if 0 \<le> k then take (nat k) xs else take (length xs - nat (- k)) xs)"

text \<open>
  The indices of lines 362 to 366: the draws clipped into the positions of the list,
  truncated to integers, made unique.
\<close>

definition sample_indices :: "nat \<Rightarrow> real list \<Rightarrow> int list" where
  "sample_indices n draws = unique (map (\<lambda>x. int_of_float (clip x 0 (real_of_int (int n - 1)))) draws)"

text \<open>Lines 356 to 372: what is done with the list the loop has accumulated.\<close>

definition sample_channels :: "pylib \<Rightarrow> channel_summary list \<Rightarrow> int \<Rightarrow> exn + channel_summary list" where
  "sample_channels lib accumulated sample_size =
     (let channels = sort_by_subscribers accumulated in
      if int (length channels) > sample_size then
        and_then (random_normal lib 0 (real (length channels) / 4) sample_size) (\<lambda>draws.
        and_then (index_all channels (sort (sample_indices (length channels) draws))) (\<lambda>sampled_channels.
          Inr (py_take sample_size sampled_channels)))
      else Inr channels)"

text \<open>
  \<^verbatim>\<open>get_top_channels_by_category\<close>, with the client it builds from the API key as
  \<open>api\<close>.
\<close>

definition get_top_channels_by_category ::
  "youtube \<Rightarrow> pylib \<Rightarrow> int \<Rightarrow> int \<Rightarrow> (log_line list \<times> (exn + channel_summary list)) option" where
  "get_top_channels_by_category api lib category sample_size =
     (case collect_channels api lib (str_int category) sample_size [] None of
        None \<Rightarrow> None
      | Some (out, channels) \<Rightarrow> Some (out, sample_channels lib channels sample_size))"

section \<open>Example libraries and clients\<close>

text \<open>
  Concrete instances of the parameters, on which the functions above are run in the
  examples below: a decimal reading of \<^verbatim>\<open>int\<close>, a decoder of the duration codes of
  the form \<^verbatim>\<open>PT#H#M#S\<close> named in the docstring of \<^verbatim>\<open>_parse_duration\<close>, and a fixed
  sequence of draws.
\<close>

definition is_digit :: "char \<Rightarrow> bool" where
  "is_digit c = (48 \<le> (of_char c :: nat) \<and> (of_char c :: nat) \<le> 57)"

definition digit_value :: "char \<Rightarrow> nat" where
  "digit_value c = (of_char c :: nat) - 48"

fun decimal_value :: "string \<Rightarrow> nat \<Rightarrow> nat option" where
  "decimal_value [] acc = Some acc"
| "decimal_value (c # cs) acc =
     (if is_digit c then decimal_value cs (10 * acc + digit_value c) else None)"

definition example_py_int :: "string \<Rightarrow> exn + int" where
  "example_py_int s =
     (case (if s = [] then None else decimal_value s 0) of
        None \<Rightarrow> Inl (ValueError ''invalid literal for int()'')
      | Some n \<Rightarrow> Inr (int n))"

fun duration_fields :: "string \<Rightarrow> nat \<Rightarrow> nat option \<Rightarrow> nat option" where
  "duration_fields [] secs pending = (case pending of None \<Rightarrow> Some secs | Some n \<Rightarrow> None)"
| "duration_fields (c # cs) secs pending =
     (if is_digit c
      then duration_fields cs secs (Some (10 * (case pending of None \<Rightarrow> 0 | Some n \<Rightarrow> n) + digit_value c))
      else (case pending of
              None \<Rightarrow> None
            | Some n \<Rightarrow>
                if c = CHR ''H'' then duration_fields cs (secs + 3600 * n) None
                else if c = CHR ''M'' then duration_fields cs (secs + 60 * n) None
                else if c = CHR ''S'' then duration_fields cs (secs + n) None
                else None))"

definition example_duration_total_seconds :: "string \<Rightarrow> exn + real" where
  "example_duration_total_seconds s =
     (case s of
        p # t # c # cs \<Rightarrow>
          (if p = CHR ''P'' \<and> t = CHR ''T'' then
             (case duration_fields (c # cs) 0 None of
                None \<Rightarrow> Inl (ValueError ''Unable to parse duration string'')
              | Some n \<Rightarrow> Inr (real n))
           else Inl (ValueError ''Unable to parse duration string''))
      | _ \<Rightarrow> Inl (ValueError ''Unable to parse duration string''))"

definition example_random_normal :: "real \<Rightarrow> real \<Rightarrow> int \<Rightarrow> exn + real list" where
  "example_random_normal mu sigma n =
     (if n < 0 then Inl (ValueError ''negative dimensions are not allowed'')
      else Inr (map (\<lambda>k. mu + sigma * (2 * real k - 1)) [0..<nat n]))"

definition example_lib :: pylib where
  "example_lib =
     \<lparr> py_int = example_py_int,
       duration_total_seconds = example_duration_total_seconds,
       random_normal = example_random_normal \<rparr>"

text \<open>The search item and the detail record of the example video number \<open>n\<close>.\<close>

definition example_item :: "nat \<Rightarrow> search_item" where
  "example_item n =
     \<lparr> si_video_id = Some (CHR ''v'' # str_nat n),
       si_title = Some ''title'',
       si_description = Some ''text'',
       si_published_at = Some ''2024-01-01T00:00:00Z'',
       si_thumbnail_url = Some ''https://i.ytimg.com/hq.jpg'' \<rparr>"

text \<open>The search items of the example videos \<open>i\<close> up to \<open>j - 1\<close>.\<close>

definition example_items :: "nat \<Rightarrow> nat \<Rightarrow> search_item list" where
  "example_items i j = map example_item [i..<j]"

definition example_info :: "string \<Rightarrow> video_info" where
  "example_info category =
     \<lparr> vi_category_id = Some category,
       vi_duration = Some ''PT1M30S'',
       vi_statistics = Some \<lparr> st_view_count = Some ''100'', st_like_count = Some ''7'',
                              st_comment_count = None \<rparr>,
       vi_tags = None,
       vi_default_language = Some ''en'',
       vi_default_audio_language = None \<rparr>"

definition example_resource :: "string \<Rightarrow> string \<Rightarrow> channel_resource" where
  "example_resource cid subscribers =
     \<lparr> cr_id = Some cid, cr_title = Some ''channel'', cr_subscriber_count = Some subscribers,
       cr_video_count = Some ''12'', cr_view_count = Some ''3400'' \<rparr>"

definition example_channel_item :: "string \<Rightarrow> channel_search_item" where
  "example_channel_item cid =
     \<lparr> csi_id_channel_id = Some cid, csi_snippet_channel_id = Some cid,
       csi_title = Some ''channel'', csi_description = Some ''about'' \<rparr>"

text \<open>
  A client with two pages of videos, of three and of two items. Video \<^verbatim>\<open>v1\<close> is in
  category 10, the others in category 20; the comment probe fails on \<^verbatim>\<open>v0\<close>.
\<close>

definition example_api :: youtube where
  "example_api =
     \<lparr> search_channel_by_name = (\<lambda>name.
         if name = ''known'' then
           Inr \<lparr> csr_items = Some [example_channel_item ''UC1''], csr_next_page_token = None \<rparr>
         else Inr \<lparr> csr_items = Some [], csr_next_page_token = None \<rparr>),
       search_channel_videos = (\<lambda>rq.
         if rq_page_token rq = None then
           Inr \<lparr> sr_items = Some (map example_item [0..<3]), sr_next_page_token = Some ''p2'' \<rparr>
         else if rq_page_token rq = Some ''p2'' then
           Inr \<lparr> sr_items = Some (map example_item [3..<5]), sr_next_page_token = None \<rparr>
         else Inl (HttpError ''invalidPageToken'')),
       videos_list = (\<lambda>part vid.
         Inr \<lparr> vr_items = Some [example_info (if vid = ''v1'' then ''10'' else ''20'')] \<rparr>),
       channels_list = (\<lambda>part ids.
         Inr \<lparr> chr_items = Some [example_resource ''UC1'' ''1000'', example_resource ''UC2'' ''5000'',
                                  example_resource ''UC3'' ''20'', example_resource ''UC4'' ''700''] \<rparr>),
       comment_threads_list = (\<lambda>vid.
         if vid = ''v0'' then Inl (HttpError ''commentsDisabled'') else Inr ()),
       video_categories_list = (\<lambda>part region.
         Inr \<lparr> cats_items = Some [\<lparr> cat_id = Some ''20'', cat_title = Some ''Gaming'' \<rparr>] \<rparr>),
       search_category_channels = (\<lambda>category max_results.
         Inr \<lparr> csr_items = Some [example_channel_item ''UC1''], csr_next_page_token = None \<rparr>),
       search_top_channels = (\<lambda>category token.
         Inr \<lparr> csr_items = Some (map example_channel_item [''UC1'', ''UC2'', ''UC3'', ''UC4'']),
               csr_next_page_token = None \<rparr>) \<rparr>"

text \<open>A client every request of which fails.\<close>

definition failing_api :: youtube where
  "failing_api =
     \<lparr> search_channel_by_name = (\<lambda>name. Inl (HttpError ''quotaExceeded'')),
       search_channel_videos = (\<lambda>rq. Inl (HttpError ''quotaExceeded'')),
       videos_list = (\<lambda>part vid. Inl (HttpError ''quotaExceeded'')),
       channels_list = (\<lambda>part ids. Inl (HttpError ''quotaExceeded'')),
       comment_threads_list = (\<lambda>vid. Inl (HttpError ''quotaExceeded'')),
       video_categories_list = (\<lambda>part region. Inl (HttpError ''quotaExceeded'')),
       search_category_channels = (\<lambda>category max_results. Inl (HttpError ''quotaExceeded'')),
       search_top_channels = (\<lambda>category token. Inl (HttpError ''quotaExceeded'')) \<rparr>"

text \<open>
  A client with three pages of 50, 50 and 10 videos, all in category 20 and with
  comments enabled, whose other requests answer as those of the first example.
\<close>

definition three_page_api :: youtube where
  "three_page_api =
     example_api \<lparr>
       search_channel_videos := (\<lambda>rq.
         if rq_page_token rq = None then
           Inr \<lparr> sr_items = Some (example_items 0 50), sr_next_page_token = Some ''p2'' \<rparr>
         else if rq_page_token rq = Some ''p2'' then
           Inr \<lparr> sr_items = Some (example_items 50 100), sr_next_page_token = Some ''p3'' \<rparr>
         else if rq_page_token rq = Some ''p3'' then
           Inr \<lparr> sr_items = Some (example_items 100 110), sr_next_page_token = None \<rparr>
         else Inl (HttpError ''invalidPageToken'')),
       videos_list := (\<lambda>part vid. Inr \<lparr> vr_items = Some [example_info ''20''] \<rparr>),
       comment_threads_list := (\<lambda>vid. Inr ()) \<rparr>"

text \<open>A client that returns one video whose category id is the text \<^verbatim>\<open>None\<close>.\<close>

definition none_category_api :: youtube where
  "none_category_api =
     example_api \<lparr>
       search_channel_videos := (\<lambda>rq.
         Inr \<lparr> sr_items = Some [example_item 0], sr_next_page_token = None \<rparr>),
       videos_list := (\<lambda>part vid. Inr \<lparr> vr_items = Some [example_info ''None''] \<rparr>) \<rparr>"

text \<open>The row of the example video \<open>n\<close> in the given category.\<close>

definition example_record :: "nat \<Rightarrow> string \<Rightarrow> string \<Rightarrow> bool \<Rightarrow> video_record" where
  "example_record n category name enabled =
     \<lparr> video_id = CHR ''v'' # str_nat n, title = ''title'', description = ''text'',
       published_at = ''2024-01-01T00:00:00Z'',
       thumbnail_url = ''https://i.ytimg.com/hq.jpg'',
       views = 100, likes = 7, comments_count = 0,
       current_subscriber_count = 1000, duration_seconds = 90,
       comments_enabled = enabled, category_id = category, category_name = name,
       tags = [], default_language = ''en'', default_audio_language = ''Unknown'' \<rparr>"


text \<open>
  The four channel records that the sampler assembles on \<open>example_api\<close>, in the order
  of the page.
\<close>

definition example_summary :: "string \<Rightarrow> int \<Rightarrow> channel_summary" where
  "example_summary cid subscribers =
     \<lparr> ch_channel_id = cid, ch_title = ''channel'', ch_subscriber_count = subscribers,
       ch_video_count = 12, ch_view_count = 3400 \<rparr>"

definition example_candidates :: "channel_summary list" where
  "example_candidates =
     [example_summary ''UC1'' 1000, example_summary ''UC2'' 5000,
      example_summary ''UC3'' 20, example_summary ''UC4'' 700]"

text \<open>
  Three clients with one failing step each: the detail request fails for video
  \<^verbatim>\<open>v2\<close>; the view count of video \<^verbatim>\<open>v1\<close> is not a number; the statistics
  request of the sampler fails.
\<close>

definition detail_error_api :: youtube where
  "detail_error_api =
     example_api \<lparr>
       videos_list := (\<lambda>part vid.
         if vid = ''v2'' then Inl (HttpError ''backendError'')
         else videos_list example_api part vid) \<rparr>"


definition stats_error_api :: youtube where
  "stats_error_api =
     example_api \<lparr>
       channels_list := (\<lambda>part ids.
         if part = ''statistics,snippet'' then Inl (HttpError ''backendError'')
         else channels_list example_api part ids) \<rparr>"

section \<open>Basic facts\<close>

lemma and_then_Inl [simp]: "and_then (Inl e) f = Inl e"
  by (simp add: and_then_def)

lemma and_then_Inr [simp]: "and_then (Inr x) f = f x"
  by (simp add: and_then_def)

lemma and_then_eq_Inr:
  "and_then m f = Inr y \<longleftrightarrow> (\<exists>x. m = Inr x \<and> f x = Inr y)"
  by (cases m) simp_all

lemma getitem_simps [simp]:
  "getitem k None = Inl (KeyError k)" "getitem k (Some x) = Inr x"
  by (simp_all add: getitem_def)

section \<open>Duration decoding (C6)\<close>



section \<open>The Channel Resolver (C7)\<close>

text \<open>
  C7. \<^verbatim>\<open>get_channel_id\<close> returns None when the request raises, when the response
  has no items, and when anything else inside its \<^verbatim>\<open>try\<close> raises; it returns the
  channel identifier of the first item otherwise; and it never raises to the caller.
\<close>

theorem get_channel_id_absent_or_first:
  "(search_channel_by_name api name = Inl e \<longrightarrow>
      get_channel_id api name = ([Log ''Error finding channel ID: '' e], Inr None))
   \<and> (search_channel_by_name api name = Inr response \<and> csr_items response = Some [] \<longrightarrow>
      get_channel_id api name = ([], Inr None))
   \<and> (search_channel_by_name api name = Inr response \<and> csr_items response = Some (first # rest)
        \<and> csi_id_channel_id first = Some cid \<longrightarrow>
      get_channel_id api name = ([], Inr (Some cid)))
   \<and> (get_channel_id_try api name = Inl e \<longrightarrow>
      get_channel_id api name = ([Log ''Error finding channel ID: '' e], Inr None))
   \<and> (\<exists>out r. get_channel_id api name = (out, Inr r))"
  by (cases "get_channel_id_try api name")
     (auto simp add: get_channel_id_def get_channel_id_try_def)

text \<open>The three cases on the example clients.\<close>

theorem get_channel_id_absent_or_first_witness:
  "search_channel_by_name failing_api ''known'' = Inl (HttpError ''quotaExceeded'')
   \<and> get_channel_id failing_api ''known''
        = ([Log ''Error finding channel ID: '' (HttpError ''quotaExceeded'')], Inr None)
   \<and> get_channel_id example_api ''nobody'' = ([], Inr None)
   \<and> get_channel_id example_api ''known'' = ([], Inr (Some ''UC1''))"
proof -
  have a: "search_channel_by_name failing_api ''known'' = Inl (HttpError ''quotaExceeded'')"
    by (simp add: failing_api_def)
  have b: "search_channel_by_name example_api ''nobody''
             = Inr \<lparr> csr_items = Some [], csr_next_page_token = None \<rparr>"
    by (simp add: example_api_def)
  have c: "search_channel_by_name example_api ''known''
             = Inr \<lparr> csr_items = Some [example_channel_item ''UC1''], csr_next_page_token = None \<rparr>"
    by (simp add: example_api_def)
  have d: "csi_id_channel_id (example_channel_item ''UC1'') = Some ''UC1''"
    by (simp add: example_channel_item_def)
  from a get_channel_id_absent_or_first [of failing_api "''known''" "HttpError ''quotaExceeded''"]
  have 1: "get_channel_id failing_api ''known''
        = ([Log ''Error finding channel ID: '' (HttpError ''quotaExceeded'')], Inr None)"
    by simp
  from b get_channel_id_absent_or_first [of example_api "''nobody''" _ "\<lparr> csr_items = Some [], csr_next_page_token = None \<rparr>"]
  have 2: "get_channel_id example_api ''nobody'' = ([], Inr None)"
    by simp
  from c d get_channel_id_absent_or_first [of example_api "''known''" _
      "\<lparr> csr_items = Some [example_channel_item ''UC1''], csr_next_page_token = None \<rparr>"
      "example_channel_item ''UC1''" "[]" "''UC1''"]
  have 3: "get_channel_id example_api ''known'' = ([], Inr (Some ''UC1''))"
    by simp
  from a 1 2 3 show ?thesis by simp
qed

section \<open>Invariants of the page loop\<close>

lemma build_record_category:
  "build_record lib env item info vid c d b = Inr r \<Longrightarrow> category_id r = c"
  by (auto simp add: build_record_def and_then_eq_Inr)

lemma process_item_SomeE:
  assumes run: "process_item api lib env item = Inr (Some r)"
  obtains vid resp info more c d where
    "si_video_id item = Some vid"
    "videos_list api ''statistics,snippet,contentDetails'' vid = Inr resp"
    "vr_items resp = Some (info # more)"
    "vi_category_id info = Some c"
    "\<not> (truthy (fe_target_category_id env) \<and> Some c \<noteq> fe_target_category_id env)"
    "vi_duration info = Some d"
    "build_record lib env item info vid c (parse_duration lib d) (probe_comments api vid) = Inr r"
proof -
  from run obtain vid where v: "si_video_id item = Some vid"
    by (cases "si_video_id item") (simp_all add: process_item_def)
  from run v obtain resp where
    p: "videos_list api ''statistics,snippet,contentDetails'' vid = Inr resp"
    by (cases "videos_list api ''statistics,snippet,contentDetails'' vid")
       (simp_all add: process_item_def)
  from run v p obtain items where i: "vr_items resp = Some items"
    by (cases "vr_items resp") (simp_all add: process_item_def)
  from run v p i obtain info more where m: "items = info # more"
    by (cases items) (simp_all add: process_item_def)
  from run v p i m obtain c where c: "vi_category_id info = Some c"
    by (cases "vi_category_id info") (simp_all add: process_item_def)
  from run v p i m c
  have f: "\<not> (truthy (fe_target_category_id env) \<and> Some c \<noteq> fe_target_category_id env)"
    by (auto simp add: process_item_def split: if_splits)
  from run v p i m c f obtain d where d: "vi_duration info = Some d"
    by (cases "vi_duration info") (auto simp add: process_item_def)
  from run v p i m c f d
  have "build_record lib env item info vid c (parse_duration lib d) (probe_comments api vid) = Inr r"
    by (cases "build_record lib env item info vid c (parse_duration lib d) (probe_comments api vid)")
       (auto simp add: process_item_def)
  with v p i m c f d that show thesis by blast
qed

lemma process_item_category:
  assumes "process_item api lib env item = Inr (Some r)"
    and "truthy (fe_target_category_id env)"
  shows "Some (category_id r) = fe_target_category_id env"
  using assms(1)
proof (rule process_item_SomeE)
  fix vid resp info more c d
  assume "\<not> (truthy (fe_target_category_id env) \<and> Some c \<noteq> fe_target_category_id env)"
    and "build_record lib env item info vid c (parse_duration lib d) (probe_comments api vid) = Inr r"
  with assms(2) build_record_category show ?thesis by fastforce
qed

lemma process_items_invariant:
  assumes step: "\<And>item r. process_item api lib env item = Inr (Some r) \<Longrightarrow> P r"
  shows "list_all P acc \<Longrightarrow> process_items api lib env acc items = (ex, acc')
           \<Longrightarrow> list_all P acc'"
proof (induction items arbitrary: acc)
  case Nil
  then show ?case by simp
next
  case (Cons item items)
  show ?case
  proof (cases "process_item api lib env item")
    case (Inl e)
    with Cons.prems show ?thesis by simp
  next
    case (Inr v)
    show ?thesis
    proof (cases v)
      case None
      with Inr Cons show ?thesis by simp
    next
      case (Some r)
      with Inr step have "P r" by blast
      with Cons.prems(1) have "list_all P (acc @ [r])" by simp
      with Cons.IH [of "acc @ [r]"] Cons.prems(2) Inr Some show ?thesis
        by (auto split: if_splits)
    qed
  qed
qed

lemma fetch_loop_invariant:
  assumes run: "fetch_loop api lib env acc tok = Some res"
    and step: "\<And>item r. process_item api lib env item = Inr (Some r) \<Longrightarrow> P r"
    and init: "list_all P acc"
  shows "list_all P (fst res)"
  using run step init
proof (induction rule: fetch_loop.raw_induct [rotated 1, consumes 1])
  case (1 loop api lib env acc tok res)
  show ?case
  proof (cases "int (length acc) < fe_max_videos env")
    case False
    with "1.hyps" "1.prems"(2) show ?thesis by auto
  next
    case True
    show ?thesis
    proof (cases "search_channel_videos api (page_request env acc tok)")
      case (Inl e)
      with True "1.hyps" "1.prems"(2) show ?thesis by auto
    next
      case (Inr response)
      obtain ex acc' where pi:
        "process_items api lib env acc (get_default (sr_items response) []) = (ex, acc')"
        by (cases "process_items api lib env acc (get_default (sr_items response) [])")
      from process_items_invariant [of api lib env P, OF "1.prems"(1) "1.prems"(2) pi]
      have inv': "list_all P acc'" .
      show ?thesis
      proof (cases "\<exists>e. ex = Raised e")
        case True
        with \<open>int (length acc) < fe_max_videos env\<close> Inr pi "1.hyps" inv'
        show ?thesis by auto
      next
        case noraise: False
        show ?thesis
        proof (cases "truthy (sr_next_page_token response)")
          case False
          with noraise \<open>int (length acc) < fe_max_videos env\<close> Inr pi "1.hyps" inv'
          show ?thesis by (cases ex) auto
        next
          case True
          with noraise \<open>int (length acc) < fe_max_videos env\<close> Inr pi "1.hyps"
          have "loop api lib env acc' (sr_next_page_token response) = Some res"
            by (cases ex) auto
          from "1.IH" [OF this "1.prems"(1) inv'] show ?thesis .
        qed
      qed
    qed
  qed
qed

lemma process_items_length:
  "process_items api lib env acc items = (ex, acc') \<Longrightarrow> int (length acc) < fe_max_videos env
     \<Longrightarrow> int (length acc') \<le> fe_max_videos env"
proof (induction items arbitrary: acc)
  case Nil
  then show ?case by simp
next
  case (Cons item items)
  show ?case
  proof (cases "process_item api lib env item")
    case (Inl e)
    with Cons.prems show ?thesis by simp
  next
    case (Inr v)
    show ?thesis
    proof (cases v)
      case None
      with Inr Cons show ?thesis by simp
    next
      case (Some r)
      show ?thesis
      proof (cases "int (length (acc @ [r])) \<ge> fe_max_videos env")
        case True
        with Cons.prems Inr Some show ?thesis by auto
      next
        case False
        with Cons.prems Inr Some
        have "process_items api lib env (acc @ [r]) items = (ex, acc')" by simp
        from Cons.IH [OF this] False show ?thesis by simp
      qed
    qed
  qed
qed

lemma fetch_loop_length:
  assumes run: "fetch_loop api lib env acc tok = Some res"
  shows "int (length (fst res)) \<le> max (int (length acc)) (fe_max_videos env)"
  using run
proof (induction rule: fetch_loop.raw_induct [rotated 1, consumes 1])
  case (1 loop api lib env acc tok res)
  show ?case
  proof (cases "int (length acc) < fe_max_videos env")
    case False
    with "1.hyps" show ?thesis by auto
  next
    case True
    show ?thesis
    proof (cases "search_channel_videos api (page_request env acc tok)")
      case (Inl e)
      with True "1.hyps" show ?thesis by auto
    next
      case (Inr response)
      obtain ex acc' where pi:
        "process_items api lib env acc (get_default (sr_items response) []) = (ex, acc')"
        by (cases "process_items api lib env acc (get_default (sr_items response) [])")
      from process_items_length [OF pi True]
      have len': "int (length acc') \<le> fe_max_videos env" .
      show ?thesis
      proof (cases "\<exists>e. ex = Raised e")
        case True
        with \<open>int (length acc) < fe_max_videos env\<close> Inr pi "1.hyps" len'
        show ?thesis by auto
      next
        case noraise: False
        show ?thesis
        proof (cases "truthy (sr_next_page_token response)")
          case False
          with noraise \<open>int (length acc) < fe_max_videos env\<close> Inr pi "1.hyps" len'
          show ?thesis by (cases ex) auto
        next
          case True
          with noraise \<open>int (length acc) < fe_max_videos env\<close> Inr pi "1.hyps"
          have "loop api lib env acc' (sr_next_page_token response) = Some res"
            by (cases ex) auto
          from "1.IH" [OF this] len' show ?thesis by simp
        qed
      qed
    qed
  qed
qed

lemma fetch_channel_videos_rows:
  assumes "fetch_channel_videos api lib cid pa pb m category = Some (out, res)"
  shows "\<exists>rows ex. res = Inr rows \<and>
           fetch_loop api lib (initial_env api lib cid pa pb m category) [] None = Some (rows, ex)"
  using assms by (auto simp add: fetch_channel_videos_def split: option.splits)

section \<open>Runs on the example clients\<close>

text \<open>The Video Collector evaluated on the example clients.\<close>

lemma example_run_4:
  "fetch_channel_videos example_api example_lib ''UC1'' ''a'' ''b'' 4 None
     = Some ([], Inr [example_record 0 ''20'' ''gaming'' False, example_record 1 ''10'' ''music'' True,
                      example_record 2 ''20'' ''gaming'' True, example_record 3 ''20'' ''gaming'' True])"
  by code_simp

lemma example_run_negative:
  "fetch_channel_videos example_api example_lib ''UC1'' ''a'' ''b'' (- 1) None = Some ([], Inr [])"
  by code_simp

lemma example_run_gaming:
  "fetch_channel_videos example_api example_lib ''UC1'' ''a'' ''b'' 10 (Some ''gaming'')
     = Some ([], Inr [example_record 0 ''20'' ''gaming'' False,
                      example_record 2 ''20'' ''gaming'' True, example_record 3 ''20'' ''gaming'' True,
                      example_record 4 ''20'' ''gaming'' True])"
  by code_simp

lemma example_run_empty_name:
  "fetch_channel_videos example_api example_lib ''UC1'' ''a'' ''b'' 2 (Some [])
     = Some ([], Inr [example_record 0 ''20'' ''gaming'' False, example_record 1 ''10'' ''music'' True])"
  by code_simp

lemma example_run_cooking:
  "fetch_channel_videos example_api example_lib ''UC1'' ''a'' ''b'' 10 (Some ''cooking'')
     = Some ([], Inr [])"
  by code_simp

lemma none_category_run:
  "fetch_channel_videos none_category_api example_lib ''UC1'' ''a'' ''b'' 10 (Some ''cooking'')
     = Some ([], Inr [example_record 0 ''None'' ''Unknown'' False])"
  by code_simp

lemma initial_env_target [simp]:
  "fe_target_category_id (initial_env api lib cid pa pb m category) = target_category_id category"
  by (simp add: initial_env_def)

lemma target_category_id_Some:
  "c \<noteq> [] \<Longrightarrow> target_category_id (Some c) = Some (str_opt_int (category_ids c))"
  by (simp add: target_category_id_def truthy_def)

lemma str_nat_not_Nil: "str_nat n \<noteq> []"
  by (subst str_nat.simps) simp

lemma str_opt_int_not_Nil: "str_opt_int v \<noteq> []"
  by (cases v) (simp_all add: str_opt_int_def str_int_def str_nat_not_Nil)

lemma process_item_skips:
  assumes "si_video_id item = Some vid"
    and "videos_list api ''statistics,snippet,contentDetails'' vid = Inr resp"
    and "vr_items resp = Some (info # others)"
    and "vi_category_id info = Some k"
    and "truthy (fe_target_category_id env)"
    and "Some k \<noteq> fe_target_category_id env"
  shows "process_item api lib env item = Inr None"
  using assms by (simp add: process_item_def)

section \<open>The requested maximum (C1)\<close>

text \<open>
  C1, as amended. Whatever the API answers, a run of \<^verbatim>\<open>fetch_channel_videos\<close>
  that returns does so normally, with at most \<open>m\<close> rows when the requested maximum
  \<open>m\<close> is not negative, and with no row when \<open>m\<close> is zero or negative.
\<close>

theorem fetch_channel_videos_at_most_max:
  assumes "fetch_channel_videos api lib cid pa pb m category = Some (out, res)"
  shows "\<exists>rows. res = Inr rows \<and> (0 \<le> m \<longrightarrow> int (length rows) \<le> m) \<and> (m \<le> 0 \<longrightarrow> rows = [])"
proof -
  from fetch_channel_videos_rows [OF assms] obtain rows ex where
    r: "res = Inr rows"
    and l: "fetch_loop api lib (initial_env api lib cid pa pb m category) [] None = Some (rows, ex)"
    by blast
  from fetch_loop_length [OF l]
  have "int (length rows) \<le> max 0 m"
    by (simp add: initial_env_def)
  with r show ?thesis by auto
qed

text \<open>On the example client with a maximum of 4: the three videos of the first page and the first of the second.\<close>

theorem fetch_channel_videos_at_most_max_witness:
  "fetch_channel_videos example_api example_lib ''UC1'' ''a'' ''b'' 4 None
     = Some ([], Inr [example_record 0 ''20'' ''gaming'' False, example_record 1 ''10'' ''music'' True,
                      example_record 2 ''20'' ''gaming'' True, example_record 3 ''20'' ''gaming'' True])
   \<and> int (length [example_record 0 ''20'' ''gaming'' False, example_record 1 ''10'' ''music'' True,
                   example_record 2 ''20'' ''gaming'' True, example_record 3 ''20'' ''gaming'' True]) \<le> 4"
  using fetch_channel_videos_at_most_max [OF example_run_4] example_run_4 by simp

text \<open>
  C1 as stated fails for a negative maximum: with \<^verbatim>\<open>max_videos=-1\<close> the loop is
  not entered and the table returned has 0 rows, which is not at most \<open>-1\<close>.
\<close>

theorem negative_maximum_counterexample:
  "row_count (fetch_channel_videos example_api example_lib ''UC1'' ''a'' ''b'' (- 1) None) = Some 0
   \<and> \<not> (int 0 \<le> - 1)"
  by (simp add: example_run_negative row_count_def)

section \<open>The category filter (C3)\<close>

text \<open>
  C3, as amended. When the category argument is a non-empty name \<open>c\<close>, every row
  of the table returned has the category id \<^verbatim>\<open>str(self.category_ids.get(c))\<close>, and
  an item whose detail record carries another category id yields no row.
\<close>

theorem category_filter_holds:
  assumes "c \<noteq> []"
  shows "(fetch_channel_videos api lib cid pa pb m (Some c) = Some (out, res) \<longrightarrow>
            (\<exists>rows. res = Inr rows \<and> (\<forall>r \<in> set rows. category_id r = str_opt_int (category_ids c))))
         \<and> (si_video_id item = Some vid
              \<and> videos_list api ''statistics,snippet,contentDetails'' vid = Inr resp
              \<and> vr_items resp = Some (info # others)
              \<and> vi_category_id info = Some k
              \<and> k \<noteq> str_opt_int (category_ids c) \<longrightarrow>
            process_item api lib (initial_env api lib cid pa pb m (Some c)) item = Inr None)"
proof -
  let ?env = "initial_env api lib cid pa pb m (Some c)"
  from assms have tgt: "fe_target_category_id ?env = Some (str_opt_int (category_ids c))"
    by (simp add: target_category_id_Some)
  then have tr: "truthy (fe_target_category_id ?env)"
    by (simp add: truthy_def str_opt_int_not_Nil)
  have first: "\<exists>rows. res = Inr rows \<and> (\<forall>r \<in> set rows. category_id r = str_opt_int (category_ids c))"
    if run: "fetch_channel_videos api lib cid pa pb m (Some c) = Some (out, res)"
  proof -
    from fetch_channel_videos_rows [OF run] obtain rows ex where
      r: "res = Inr rows" and l: "fetch_loop api lib ?env [] None = Some (rows, ex)"
      by blast
    have "list_all (\<lambda>r. category_id r = str_opt_int (category_ids c)) (fst (rows, ex))"
    proof (rule fetch_loop_invariant [OF l])
      fix item r
      assume "process_item api lib ?env item = Inr (Some r)"
      from process_item_category [OF this tr] tgt
      show "category_id r = str_opt_int (category_ids c)" by simp
    qed simp
    with r show ?thesis by (simp add: list_all_iff)
  qed
  have second: "process_item api lib ?env item = Inr None"
    if h: "si_video_id item = Some vid
              \<and> videos_list api ''statistics,snippet,contentDetails'' vid = Inr resp
              \<and> vr_items resp = Some (info # others)
              \<and> vi_category_id info = Some k
              \<and> k \<noteq> str_opt_int (category_ids c)"
  proof (rule process_item_skips [where k = k and info = info and vid = vid and resp = resp and others = others])
    from h tgt show "Some k \<noteq> fe_target_category_id ?env" by simp
  qed (use h tr in simp_all)
  from first second show ?thesis by blast
qed

text \<open>On the example client with the category \<^verbatim>\<open>gaming\<close>: video \<^verbatim>\<open>v1\<close>, of category 10, is left out.\<close>

theorem category_filter_holds_witness:
  "fetch_channel_videos example_api example_lib ''UC1'' ''a'' ''b'' 10 (Some ''gaming'')
     = Some ([], Inr [example_record 0 ''20'' ''gaming'' False,
                      example_record 2 ''20'' ''gaming'' True, example_record 3 ''20'' ''gaming'' True,
                      example_record 4 ''20'' ''gaming'' True])
   \<and> str_opt_int (category_ids ''gaming'') = ''20''
   \<and> map category_id [example_record 0 ''20'' ''gaming'' False,
                      example_record 2 ''20'' ''gaming'' True, example_record 3 ''20'' ''gaming'' True,
                      example_record 4 ''20'' ''gaming'' True]
       = replicate 4 (str_opt_int (category_ids ''gaming''))"
proof -
  have ne: "''gaming'' \<noteq> []" by simp
  have s: "str_opt_int (category_ids ''gaming'') = ''20''" by code_simp
  from category_filter_holds [OF ne, of example_api example_lib "''UC1''" "''a''" "''b''" 10 "[]"
      "Inr [example_record 0 ''20'' ''gaming'' False,
                      example_record 2 ''20'' ''gaming'' True, example_record 3 ''20'' ''gaming'' True,
                      example_record 4 ''20'' ''gaming'' True]"] example_run_gaming
  have "map category_id [example_record 0 ''20'' ''gaming'' False,
                      example_record 2 ''20'' ''gaming'' True, example_record 3 ''20'' ''gaming'' True,
                      example_record 4 ''20'' ''gaming'' True]
       = replicate 4 (str_opt_int (category_ids ''gaming''))"
    by (simp add: numeral_eq_Suc)
  with s example_run_gaming show ?thesis by simp
qed

text \<open>
  C3 as stated fails for the empty string, a category argument that is not None: it is
  false in \<^verbatim>\<open>if category\<close>, no filter is set, and rows of every category are
  returned.
\<close>

theorem empty_category_name_counterexample:
  "fetch_channel_videos example_api example_lib ''UC1'' ''a'' ''b'' 2 (Some [])
     = Some ([], Inr [example_record 0 ''20'' ''gaming'' False, example_record 1 ''10'' ''music'' True])
   \<and> target_category_id (Some []) = None
   \<and> str_opt_int (category_ids []) = ''None''
   \<and> category_id (example_record 0 ''20'' ''gaming'' False) = ''20''
   \<and> category_id (example_record 0 ''20'' ''gaming'' False) \<noteq> str_opt_int (category_ids [])"
proof -
  have a: "target_category_id (Some []) = None"
    by (simp add: target_category_id_def truthy_def)
  have b: "str_opt_int (category_ids []) = ''None''" by code_simp
  have c: "category_id (example_record 0 ''20'' ''gaming'' False) = ''20''"
    by (simp add: example_record_def)
  from a b c example_run_empty_name show ?thesis by simp
qed

section \<open>An unknown category name (C10)\<close>

text \<open>
  C10, as amended. For a non-empty category name that is not in the category table
  the filter id is the text \<^verbatim>\<open>None\<close>; a run that returns does so normally, every
  row it returns carries the category id \<^verbatim>\<open>None\<close>, and the table is empty when no
  detail record of the API carries that id.
\<close>

theorem unknown_category_yields_nothing:
  assumes "c \<noteq> []" and "category_ids c = None"
    and "fetch_channel_videos api lib cid pa pb m (Some c) = Some (out, res)"
  shows "target_category_id (Some c) = Some ''None''
         \<and> (\<exists>rows. res = Inr rows
               \<and> (\<forall>r \<in> set rows. category_id r = ''None'')
               \<and> ((\<forall>vid resp info others.
                      videos_list api ''statistics,snippet,contentDetails'' vid = Inr resp
                      \<longrightarrow> vr_items resp = Some (info # others)
                      \<longrightarrow> vi_category_id info \<noteq> Some ''None'')
                    \<longrightarrow> rows = []))"
proof -
  let ?env = "initial_env api lib cid pa pb m (Some c)"
  from assms(1,2) have tgt: "target_category_id (Some c) = Some ''None''"
    by (simp add: target_category_id_Some str_opt_int_def)
  then have tr: "truthy (fe_target_category_id ?env)"
    by (simp add: truthy_def)
  from fetch_channel_videos_rows [OF assms(3)] obtain rows ex where
    r: "res = Inr rows" and l: "fetch_loop api lib ?env [] None = Some (rows, ex)"
    by blast
  have "list_all (\<lambda>r. category_id r = ''None'') (fst (rows, ex))"
  proof (rule fetch_loop_invariant [OF l])
    fix item r
    assume "process_item api lib ?env item = Inr (Some r)"
    from process_item_category [OF this tr] tgt
    show "category_id r = ''None''" by simp
  qed simp
  then have all_none: "\<forall>r \<in> set rows. category_id r = ''None''"
    by (simp add: list_all_iff)
  have empty: "rows = []"
    if data: "\<forall>vid resp info others.
                videos_list api ''statistics,snippet,contentDetails'' vid = Inr resp
                \<longrightarrow> vr_items resp = Some (info # others)
                \<longrightarrow> vi_category_id info \<noteq> Some ''None''"
  proof -
    have "list_all (\<lambda>r. False) (fst (rows, ex))"
    proof (rule fetch_loop_invariant [OF l])
      fix item r
      assume run: "process_item api lib ?env item = Inr (Some r)"
      show False
        using run
      proof (rule process_item_SomeE)
        fix vid resp info others k d
        assume "videos_list api ''statistics,snippet,contentDetails'' vid = Inr resp"
          and "vr_items resp = Some (info # others)"
          and "vi_category_id info = Some k"
          and "\<not> (truthy (fe_target_category_id ?env) \<and> Some k \<noteq> fe_target_category_id ?env)"
        with data tr tgt show False by auto
      qed
    qed simp
    then show ?thesis by (cases rows) simp_all
  qed
  from tgt r all_none empty show ?thesis by blast
qed

text \<open>On the example client with the unknown name \<^verbatim>\<open>cooking\<close>: nothing is returned, nothing printed.\<close>

theorem unknown_category_yields_nothing_witness:
  "category_ids ''cooking'' = None
   \<and> target_category_id (Some ''cooking'') = Some ''None''
   \<and> fetch_channel_videos example_api example_lib ''UC1'' ''a'' ''b'' 10 (Some ''cooking'')
       = Some ([], Inr [])"
proof -
  have ne: "''cooking'' \<noteq> []" by simp
  have unknown: "category_ids ''cooking'' = None" by code_simp
  from unknown_category_yields_nothing [OF ne unknown example_run_cooking] unknown example_run_cooking
  show ?thesis by simp
qed

text \<open>
  C10 as stated fails in two ways. The empty string is not in the table, yet it sets
  no filter and rows are returned; and a video whose category id is the text
  \<^verbatim>\<open>None\<close> matches the filter id of an unknown name and is returned.
\<close>

theorem unknown_category_counterexample:
  "category_ids [] = None
   \<and> fetch_channel_videos example_api example_lib ''UC1'' ''a'' ''b'' 2 (Some [])
       = Some ([], Inr [example_record 0 ''20'' ''gaming'' False, example_record 1 ''10'' ''music'' True])
   \<and> [example_record 0 ''20'' ''gaming'' False, example_record 1 ''10'' ''music'' True] \<noteq> []
   \<and> category_ids ''cooking'' = None
   \<and> fetch_channel_videos none_category_api example_lib ''UC1'' ''a'' ''b'' 10 (Some ''cooking'')
       = Some ([], Inr [example_record 0 ''None'' ''Unknown'' False])
   \<and> [example_record 0 ''None'' ''Unknown'' False] \<noteq> []"
proof -
  have a: "category_ids [] = None" by code_simp
  have b: "category_ids ''cooking'' = None" by code_simp
  from a b example_run_empty_name none_category_run show ?thesis by simp
qed

section \<open>Pages whose items do not raise\<close>

lemma records_of_Nil [simp]: "records_of api lib env [] = []"
  by (simp add: records_of_def)

lemma records_of_Cons:
  "records_of api lib env (item # items) =
     (case process_item api lib env item of Inr (Some r) \<Rightarrow> [r] | _ \<Rightarrow> [])
       @ records_of api lib env items"
  by (simp add: records_of_def)

lemma records_of_append [simp]:
  "records_of api lib env (xs @ ys) = records_of api lib env xs @ records_of api lib env ys"
  by (simp add: records_of_def)

lemma records_of_all_assembled:
  assumes "\<forall>item \<in> set items. \<exists>r. process_item api lib env item = Inr (Some r)"
  shows "map (\<lambda>r. Inr (Some r)) (records_of api lib env items) = map (process_item api lib env) items"
  using assms by (induction items) (auto simp add: records_of_Cons)

lemma process_items_prefix:
  assumes "\<forall>item \<in> set oks. \<forall>e. process_item api lib env item \<noteq> Inl e"
    and "int (length acc + length (records_of api lib env oks)) < fe_max_videos env"
  shows "process_items api lib env acc (oks @ rest)
           = process_items api lib env (acc @ records_of api lib env oks) rest"
  using assms
proof (induction oks arbitrary: acc)
  case Nil
  then show ?case by simp
next
  case (Cons item oks)
  show ?case
  proof (cases "process_item api lib env item")
    case (Inl e)
    with Cons.prems(1) show ?thesis by simp
  next
    case (Inr v)
    show ?thesis
    proof (cases v)
      case None
      with Inr Cons show ?thesis by (simp add: records_of_Cons)
    next
      case (Some r)
      with Inr Cons.prems have
        "int (length ((acc @ [r]) @ records_of api lib env oks)) < fe_max_videos env"
        by (simp add: records_of_Cons)
      moreover from this have "\<not> int (length (acc @ [r])) \<ge> fe_max_videos env" by simp
      moreover from Cons.prems(1) have
        "\<forall>item \<in> set oks. \<forall>e. process_item api lib env item \<noteq> Inl e" by simp
      ultimately show ?thesis
        using Cons.IH [of "acc @ [r]"] Inr Some by (simp add: records_of_Cons)
    qed
  qed
qed

lemma process_items_no_raise:
  assumes "\<forall>item \<in> set items. \<forall>e. process_item api lib env item \<noteq> Inl e"
    and "int (length acc + length (records_of api lib env items)) < fe_max_videos env"
  shows "process_items api lib env acc items = (Exhausted, acc @ records_of api lib env items)"
  using process_items_prefix [OF assms, of "[]"] by simp

lemma process_items_raise:
  assumes "\<forall>item \<in> set oks. \<forall>e. process_item api lib env item \<noteq> Inl e"
    and "int (length acc + length (records_of api lib env oks)) < fe_max_videos env"
    and "process_item api lib env bad = Inl e"
  shows "process_items api lib env acc (oks @ bad # rest)
           = (Raised e, acc @ records_of api lib env oks)"
  using process_items_prefix [OF assms(1,2), of "bad # rest"] assms(3) by simp

lemma fetch_loop_page:
  assumes "search_channel_videos api (page_request env acc tok) = Inr response"
    and "\<forall>item \<in> set (get_default (sr_items response) []). \<forall>e. process_item api lib env item \<noteq> Inl e"
    and "int (length acc + length (records_of api lib env (get_default (sr_items response) [])))
           < fe_max_videos env"
  shows "fetch_loop api lib env acc tok =
           (if truthy (sr_next_page_token response)
            then fetch_loop api lib env
                   (acc @ records_of api lib env (get_default (sr_items response) []))
                   (sr_next_page_token response)
            else Some (acc @ records_of api lib env (get_default (sr_items response) []), None))"
proof -
  from assms(3) have "int (length acc) < fe_max_videos env" by simp
  with assms(1) process_items_no_raise [OF assms(2,3)] show ?thesis
    by (subst fetch_loop.simps) simp
qed

lemma records_of_length:
  assumes "\<forall>item \<in> set items. \<exists>r. process_item api lib env item = Inr (Some r)"
  shows "length (records_of api lib env items) = length items"
  using assms by (induction items) (auto simp add: records_of_Cons)

lemma assembled_no_raise:
  assumes "\<forall>item \<in> set items. \<exists>r. process_item api lib env item = Inr (Some r)"
  shows "\<forall>item \<in> set items. \<forall>e. process_item api lib env item \<noteq> Inl e"
  using assms by fastforce

lemma fetch_loop_three_pages:
  assumes m: "fe_max_videos env = 120"
    and p1: "search_channel_videos api
               \<lparr> rq_channel_id = fe_channel_id env, rq_max_results = 50,
                 rq_published_after = fe_published_after env,
                 rq_published_before = fe_published_before env,
                 rq_page_token = None \<rparr> = Inr r1"
    and i1: "sr_items r1 = Some items1" "length items1 = 50"
    and t1: "sr_next_page_token r1 = Some t1" "t1 \<noteq> []"
    and p2: "search_channel_videos api
               \<lparr> rq_channel_id = fe_channel_id env, rq_max_results = 50,
                 rq_published_after = fe_published_after env,
                 rq_published_before = fe_published_before env,
                 rq_page_token = Some t1 \<rparr> = Inr r2"
    and i2: "sr_items r2 = Some items2" "length items2 = 50"
    and t2: "sr_next_page_token r2 = Some t2" "t2 \<noteq> []"
    and p3: "search_channel_videos api
               \<lparr> rq_channel_id = fe_channel_id env, rq_max_results = 20,
                 rq_published_after = fe_published_after env,
                 rq_published_before = fe_published_before env,
                 rq_page_token = Some t2 \<rparr> = Inr r3"
    and i3: "sr_items r3 = Some items3" "length items3 = 10"
    and t3: "\<not> truthy (sr_next_page_token r3)"
    and ok: "\<forall>item \<in> set (items1 @ items2 @ items3).
               \<exists>r. process_item api lib env item = Inr (Some r)"
  shows "fetch_loop api lib env [] None
           = Some (records_of api lib env (items1 @ items2 @ items3), None)"
proof -
  let ?rec = "records_of api lib env"
  from ok have ok1: "\<forall>item \<in> set items1. \<exists>r. process_item api lib env item = Inr (Some r)"
    and ok2: "\<forall>item \<in> set items2. \<exists>r. process_item api lib env item = Inr (Some r)"
    and ok3: "\<forall>item \<in> set items3. \<exists>r. process_item api lib env item = Inr (Some r)"
    by auto
  have n1: "length (?rec items1) = 50" using records_of_length [OF ok1] i1 by simp
  have n2: "length (?rec items2) = 50" using records_of_length [OF ok2] i2 by simp
  have n3: "length (?rec items3) = 10" using records_of_length [OF ok3] i3 by simp
  have rq1: "page_request env [] None =
               \<lparr> rq_channel_id = fe_channel_id env, rq_max_results = 50,
                 rq_published_after = fe_published_after env,
                 rq_published_before = fe_published_before env,
                 rq_page_token = None \<rparr>"
    by (simp add: page_request_def m)
  have rq2: "page_request env ([] @ ?rec items1) (Some t1) =
               \<lparr> rq_channel_id = fe_channel_id env, rq_max_results = 50,
                 rq_published_after = fe_published_after env,
                 rq_published_before = fe_published_before env,
                 rq_page_token = Some t1 \<rparr>"
    by (simp add: page_request_def m n1)
  have rq3: "page_request env (([] @ ?rec items1) @ ?rec items2) (Some t2) =
               \<lparr> rq_channel_id = fe_channel_id env, rq_max_results = 20,
                 rq_published_after = fe_published_after env,
                 rq_published_before = fe_published_before env,
                 rq_page_token = Some t2 \<rparr>"
    by (simp add: page_request_def m n1 n2)
  have step1: "fetch_loop api lib env [] None
                 = fetch_loop api lib env ([] @ ?rec items1) (Some t1)"
  proof -
    have a: "search_channel_videos api (page_request env [] None) = Inr r1"
      using p1 rq1 by simp
    have b: "\<forall>item \<in> set (get_default (sr_items r1) []). \<forall>e. process_item api lib env item \<noteq> Inl e"
      using assembled_no_raise [OF ok1] i1 by (simp add: get_default_def)
    have c: "int (length ([] :: video_record list)
                  + length (?rec (get_default (sr_items r1) []))) < fe_max_videos env"
      using n1 i1 m by (simp add: get_default_def)
    from fetch_loop_page [OF a b c] t1 i1 show ?thesis
      by (simp add: get_default_def truthy_def)
  qed
  have step2: "fetch_loop api lib env ([] @ ?rec items1) (Some t1)
                 = fetch_loop api lib env (([] @ ?rec items1) @ ?rec items2) (Some t2)"
  proof -
    have a: "search_channel_videos api (page_request env ([] @ ?rec items1) (Some t1)) = Inr r2"
      using p2 rq2 by simp
    have b: "\<forall>item \<in> set (get_default (sr_items r2) []). \<forall>e. process_item api lib env item \<noteq> Inl e"
      using assembled_no_raise [OF ok2] i2 by (simp add: get_default_def)
    have c: "int (length ([] @ ?rec items1)
                  + length (?rec (get_default (sr_items r2) []))) < fe_max_videos env"
      using n1 n2 i2 m by (simp add: get_default_def)
    from fetch_loop_page [OF a b c] t2 i2 show ?thesis
      by (simp add: get_default_def truthy_def)
  qed
  have step3: "fetch_loop api lib env (([] @ ?rec items1) @ ?rec items2) (Some t2)
                 = Some ((([] @ ?rec items1) @ ?rec items2) @ ?rec items3, None)"
  proof -
    have a: "search_channel_videos api
               (page_request env (([] @ ?rec items1) @ ?rec items2) (Some t2)) = Inr r3"
      using p3 rq3 by simp
    have b: "\<forall>item \<in> set (get_default (sr_items r3) []). \<forall>e. process_item api lib env item \<noteq> Inl e"
      using assembled_no_raise [OF ok3] i3 by (simp add: get_default_def)
    have c: "int (length (([] @ ?rec items1) @ ?rec items2)
                  + length (?rec (get_default (sr_items r3) []))) < fe_max_videos env"
      using n1 n2 n3 i3 m by (simp add: get_default_def)
    from fetch_loop_page [OF a b c] t3 i3 show ?thesis
      by (simp add: get_default_def)
  qed
  from step1 step2 step3 show ?thesis by simp
qed

section \<open>The three-page client\<close>

lemma category_names_20: "category_names ''20'' = Some ''gaming''"
  by code_simp

lemma example_py_int_values:
  "example_py_int ''100'' = Inr 100" "example_py_int ''7'' = Inr 7"
  "example_py_int ''1000'' = Inr 1000"
  by (simp_all add: example_py_int_def is_digit_def digit_value_def)

lemma example_duration_value: "parse_duration example_lib ''PT1M30S'' = 90"
  by (simp add: parse_duration_def int_of_float_def example_lib_def
      example_duration_total_seconds_def is_digit_def digit_value_def)

lemma three_page_env:
  "initial_env three_page_api example_lib cid pa pb m None
     = \<lparr> fe_channel_id = cid, fe_published_after = pa, fe_published_before = pb,
         fe_max_videos = m, fe_target_category_id = None, fe_subscriber_count = 1000 \<rparr>"
  by (simp add: initial_env_def target_category_id_def truthy_def fetch_subscriber_count_def
      fetch_subscriber_count_try_def three_page_api_def example_api_def example_resource_def
      example_lib_def example_py_int_values)

lemma example_item_video_id: "si_video_id (example_item n) = Some (CHR ''v'' # str_nat n)"
  by (simp add: example_item_def)

lemma example_info_fields:
  "vi_category_id (example_info c) = Some c" "vi_duration (example_info c) = Some ''PT1M30S''"
  by (simp_all add: example_info_def)

lemma example_build_record:
  "fe_subscriber_count env = 1000 \<Longrightarrow>
   build_record example_lib env (example_item n) (example_info ''20'')
      (CHR ''v'' # str_nat n) ''20'' 90 b = Inr (example_record n ''20'' ''gaming'' b)"
  by (simp add: build_record_def example_item_def example_info_def int_statistic_def
      get_default_def category_names_20 example_lib_def example_py_int_values example_record_def)

lemma three_page_item:
  "process_item three_page_api example_lib (initial_env three_page_api example_lib cid pa pb m None)
     (example_item n) = Inr (Some (example_record n ''20'' ''gaming'' True))"
proof -
  let ?env = "initial_env three_page_api example_lib cid pa pb m None"
  have t: "\<not> truthy (fe_target_category_id ?env)"
    by (simp add: target_category_id_def truthy_def)
  have s: "fe_subscriber_count ?env = 1000"
    by (simp add: three_page_env)
  have v: "videos_list three_page_api p vid = Inr \<lparr> vr_items = Some [example_info ''20''] \<rparr>" for p vid
    by (simp add: three_page_api_def)
  have c: "probe_comments three_page_api vid" for vid
    by (simp add: probe_comments_def three_page_api_def)
  show ?thesis
    unfolding process_item_def
    by (simp only: example_item_video_id getitem_simps and_then_Inr v videos_response.simps
        list.case example_info_fields t simp_thms if_False example_duration_value c
        example_build_record [OF s])
qed

lemma example_items_length [simp]: "length (example_items i j) = j - i"
  by (simp add: example_items_def)

lemma example_items_append:
  "i \<le> j \<Longrightarrow> j \<le> k \<Longrightarrow> example_items i j @ example_items j k = example_items i k"
proof -
  assume "i \<le> j" "j \<le> k"
  then have "[i..<j + (k - j)] = [i..<j] @ [j..<j + (k - j)]"
    by (intro upt_add_eq_append)
  with \<open>j \<le> k\<close> have "[i..<k] = [i..<j] @ [j..<k]" by simp
  then show ?thesis by (simp add: example_items_def)
qed

lemma example_items_member:
  "item \<in> set (example_items i j) \<Longrightarrow> \<exists>n. item = example_item n"
  by (auto simp add: example_items_def)

lemma three_page_records:
  "records_of three_page_api example_lib (initial_env three_page_api example_lib cid pa pb m None)
     (example_items i j) = map (\<lambda>n. example_record n ''20'' ''gaming'' True) [i..<j]"
proof -
  have "records_of three_page_api example_lib (initial_env three_page_api example_lib cid pa pb m None)
     (map example_item ns) = map (\<lambda>n. example_record n ''20'' ''gaming'' True) ns" for ns
    by (induction ns) (simp_all add: records_of_Cons three_page_item)
  then show ?thesis by (simp add: example_items_def)
qed

lemma three_page_search:
  "search_channel_videos three_page_api
     \<lparr> rq_channel_id = c, rq_max_results = k, rq_published_after = a,
       rq_published_before = b, rq_page_token = None \<rparr>
     = Inr \<lparr> sr_items = Some (example_items 0 50), sr_next_page_token = Some ''p2'' \<rparr>"
  "search_channel_videos three_page_api
     \<lparr> rq_channel_id = c, rq_max_results = k, rq_published_after = a,
       rq_published_before = b, rq_page_token = Some ''p2'' \<rparr>
     = Inr \<lparr> sr_items = Some (example_items 50 100), sr_next_page_token = Some ''p3'' \<rparr>"
  "search_channel_videos three_page_api
     \<lparr> rq_channel_id = c, rq_max_results = k, rq_published_after = a,
       rq_published_before = b, rq_page_token = Some ''p3'' \<rparr>
     = Inr \<lparr> sr_items = Some (example_items 100 110), sr_next_page_token = None \<rparr>"
  by (simp_all add: three_page_api_def)

lemma three_page_all_assembled:
  "\<forall>item \<in> set (example_items 0 50 @ example_items 50 100 @ example_items 100 110).
     \<exists>r. process_item three_page_api example_lib
            (initial_env three_page_api example_lib cid pa pb m None) item = Inr (Some r)"
  by (auto dest!: example_items_member simp add: three_page_item)

lemma three_page_no_log:
  "fst (fetch_subscriber_count three_page_api example_lib cid) = []"
  by (simp add: fetch_subscriber_count_def
      fetch_subscriber_count_try_def three_page_api_def example_api_def example_resource_def
      example_lib_def example_py_int_values)

lemma three_page_run:
  "fetch_channel_videos three_page_api example_lib ''UC1'' ''a'' ''b'' 120 None
     = Some ([], Inr (map (\<lambda>n. example_record n ''20'' ''gaming'' True) [0..<110]))"
proof -
  let ?env = "initial_env three_page_api example_lib ''UC1'' ''a'' ''b'' 120 None"
  have m: "fe_max_videos ?env = 120" by (simp add: initial_env_def)
  have t3: "\<not> truthy (sr_next_page_token
              \<lparr> sr_items = Some (example_items 100 110), sr_next_page_token = None \<rparr>)"
    by (simp add: truthy_def)
  have i1: "sr_items \<lparr> sr_items = Some (example_items 0 50), sr_next_page_token = Some ''p2'' \<rparr>
              = Some (example_items 0 50)" by simp
  have i2: "sr_items \<lparr> sr_items = Some (example_items 50 100), sr_next_page_token = Some ''p3'' \<rparr>
              = Some (example_items 50 100)" by simp
  have i3: "sr_items \<lparr> sr_items = Some (example_items 100 110), sr_next_page_token = None \<rparr>
              = Some (example_items 100 110)" by simp
  have k1: "sr_next_page_token \<lparr> sr_items = Some (example_items 0 50), sr_next_page_token = Some ''p2'' \<rparr>
              = Some ''p2''" by simp
  have k2: "sr_next_page_token \<lparr> sr_items = Some (example_items 50 100), sr_next_page_token = Some ''p3'' \<rparr>
              = Some ''p3''" by simp
  have l1: "length (example_items 0 50) = 50" by simp
  have l2: "length (example_items 50 100) = 50" by simp
  have l3: "length (example_items 100 110) = 10" by simp
  have n2: "''p2'' \<noteq> []" by simp
  have n3: "''p3'' \<noteq> []" by simp
  have "fetch_loop three_page_api example_lib ?env [] None
          = Some (records_of three_page_api example_lib ?env
                    (example_items 0 50 @ example_items 50 100 @ example_items 100 110), None)"
    by (rule fetch_loop_three_pages [OF m three_page_search(1) i1 l1 k1 n2
          three_page_search(2) i2 l2 k2 n3 three_page_search(3) i3 l3 t3 three_page_all_assembled])
  moreover have "example_items 0 50 @ example_items 50 100 @ example_items 100 110
                   = example_items 0 110"
    by (simp add: example_items_append)
  ultimately have "fetch_loop three_page_api example_lib ?env [] None
          = Some (map (\<lambda>n. example_record n ''20'' ''gaming'' True) [0..<110], None)"
    by (simp only: three_page_records)
  then show ?thesis
    by (simp only: fetch_channel_videos_def three_page_no_log option.case prod.case append_Nil)
qed

section \<open>Three pages of 50, 50 and 10 videos (C2)\<close>

text \<open>
  C2, as amended. When the API answers the three requests of the run with pages of
  50, 50 and 10 videos (the first two with a page token, the third without), every
  video yields a record, no category filter is set and \<^verbatim>\<open>max_videos=120\<close>, then
  \<^verbatim>\<open>fetch_channel_videos\<close> returns exactly 110 records: those of all videos of
  the three pages, in order.
\<close>

theorem three_pages_yield_110_records:
  assumes p1: "search_channel_videos api
               \<lparr> rq_channel_id = cid, rq_max_results = 50, rq_published_after = pa,
                 rq_published_before = pb, rq_page_token = None \<rparr> = Inr r1"
    and i1: "sr_items r1 = Some items1" "length items1 = 50"
    and t1: "sr_next_page_token r1 = Some t1" "t1 \<noteq> []"
    and p2: "search_channel_videos api
               \<lparr> rq_channel_id = cid, rq_max_results = 50, rq_published_after = pa,
                 rq_published_before = pb, rq_page_token = Some t1 \<rparr> = Inr r2"
    and i2: "sr_items r2 = Some items2" "length items2 = 50"
    and t2: "sr_next_page_token r2 = Some t2" "t2 \<noteq> []"
    and p3: "search_channel_videos api
               \<lparr> rq_channel_id = cid, rq_max_results = 20, rq_published_after = pa,
                 rq_published_before = pb, rq_page_token = Some t2 \<rparr> = Inr r3"
    and i3: "sr_items r3 = Some items3" "length items3 = 10"
    and t3: "\<not> truthy (sr_next_page_token r3)"
    and ok: "\<forall>item \<in> set (items1 @ items2 @ items3).
               \<exists>r. process_item api lib (initial_env api lib cid pa pb 120 None) item = Inr (Some r)"
  shows "\<exists>out rows.
           fetch_channel_videos api lib cid pa pb 120 None = Some (out, Inr rows)
           \<and> length rows = 110
           \<and> map (\<lambda>r. Inr (Some r)) rows
               = map (process_item api lib (initial_env api lib cid pa pb 120 None))
                   (items1 @ items2 @ items3)"
proof -
  let ?env = "initial_env api lib cid pa pb 120 None"
  let ?items = "items1 @ items2 @ items3"
  have m: "fe_max_videos ?env = 120" by (simp add: initial_env_def)
  have f: "fe_channel_id ?env = cid" "fe_published_after ?env = pa" "fe_published_before ?env = pb"
    by (simp_all add: initial_env_def)
  have loop: "fetch_loop api lib ?env [] None = Some (records_of api lib ?env ?items, None)"
    by (rule fetch_loop_three_pages [OF m _ i1 t1 _ i2 t2 _ i3 t3 ok])
       (simp_all only: f p1 p2 p3)
  have len: "length (records_of api lib ?env ?items) = 110"
    using records_of_length [OF ok] i1 i2 i3 by simp
  from loop have "fetch_channel_videos api lib cid pa pb 120 None
      = Some (fst (fetch_subscriber_count api lib cid), Inr (records_of api lib ?env ?items))"
    by (simp add: fetch_channel_videos_def)
  with len records_of_all_assembled [OF ok] show ?thesis by blast
qed

text \<open>On the three-page client: the 110 records of the videos 0 to 109.\<close>

theorem three_pages_yield_110_records_witness:
  "fetch_channel_videos three_page_api example_lib ''UC1'' ''a'' ''b'' 120 None
     = Some ([], Inr (map (\<lambda>n. example_record n ''20'' ''gaming'' True) [0..<110]))
   \<and> length (map (\<lambda>n. example_record n ''20'' ''gaming'' True) [0..<110]) = 110"
proof -
  have i1: "sr_items \<lparr> sr_items = Some (example_items 0 50), sr_next_page_token = Some ''p2'' \<rparr>
              = Some (example_items 0 50)" by simp
  have i2: "sr_items \<lparr> sr_items = Some (example_items 50 100), sr_next_page_token = Some ''p3'' \<rparr>
              = Some (example_items 50 100)" by simp
  have i3: "sr_items \<lparr> sr_items = Some (example_items 100 110), sr_next_page_token = None \<rparr>
              = Some (example_items 100 110)" by simp
  have k1: "sr_next_page_token \<lparr> sr_items = Some (example_items 0 50), sr_next_page_token = Some ''p2'' \<rparr>
              = Some ''p2''" by simp
  have k2: "sr_next_page_token \<lparr> sr_items = Some (example_items 50 100), sr_next_page_token = Some ''p3'' \<rparr>
              = Some ''p3''" by simp
  have t3: "\<not> truthy (sr_next_page_token
              \<lparr> sr_items = Some (example_items 100 110), sr_next_page_token = None \<rparr>)"
    by (simp add: truthy_def)
  have l1: "length (example_items 0 50) = 50" by simp
  have l2: "length (example_items 50 100) = 50" by simp
  have l3: "length (example_items 100 110) = 10" by simp
  have n2: "''p2'' \<noteq> []" by simp
  have n3: "''p3'' \<noteq> []" by simp
  from three_pages_yield_110_records [OF three_page_search(1) i1 l1 k1 n2
          three_page_search(2) i2 l2 k2 n3 three_page_search(3) i3 l3 t3 three_page_all_assembled]
  obtain out rows where
    "fetch_channel_videos three_page_api example_lib ''UC1'' ''a'' ''b'' 120 None = Some (out, Inr rows)"
    and "length rows = 110"
    by blast
  with three_page_run show ?thesis by (simp only: option.inject prod.inject sum.inject simp_thms)
qed

text \<open>
  C2 as stated fails: three pages of 50, 50 and 10 videos hold 110 videos, so the
  table returned has 110 rows, not 120.
\<close>

theorem three_pages_counterexample:
  "length (example_items 0 50) = 50 \<and> length (example_items 50 100) = 50
   \<and> length (example_items 100 110) = 10
   \<and> row_count (fetch_channel_videos three_page_api example_lib ''UC1'' ''a'' ''b'' 120 None) = Some 110
   \<and> row_count (fetch_channel_videos three_page_api example_lib ''UC1'' ''a'' ''b'' 120 None) \<noteq> Some 120"
  by (simp add: three_page_run row_count_def)

section \<open>The sampling step\<close>

lemma int_of_float_clip:
  assumes "0 < n"
  shows "0 \<le> int_of_float (clip x 0 (real_of_int (int n - 1)))
         \<and> int_of_float (clip x 0 (real_of_int (int n - 1))) < int n"
proof -
  let ?y = "clip x 0 (real_of_int (int n - 1))"
  from assms have lo: "0 \<le> ?y" and hi: "?y \<le> real_of_int (int n - 1)"
    by (simp_all add: clip_def)
  from lo have eq: "int_of_float ?y = \<lfloor>?y\<rfloor>" by (simp add: int_of_float_def)
  from lo have "0 \<le> \<lfloor>?y\<rfloor>" by simp
  moreover from hi have "?y < real_of_int (int n)" by simp
  then have "\<lfloor>?y\<rfloor> < int n" by (simp only: floor_less_iff)
  ultimately show ?thesis using eq by simp
qed

lemma sample_indices_props:
  assumes "0 < n"
  shows "distinct (sample_indices n draws)" "sorted (sample_indices n draws)"
    "\<forall>i \<in> set (sample_indices n draws). 0 \<le> i \<and> i < int n"
    "length (sample_indices n draws) \<le> length draws"
proof -
  show "distinct (sample_indices n draws)" "sorted (sample_indices n draws)"
    by (simp_all add: sample_indices_def unique_def)
  show "\<forall>i \<in> set (sample_indices n draws). 0 \<le> i \<and> i < int n"
    using int_of_float_clip [OF assms] by (auto simp add: sample_indices_def unique_def)
  have "length (sample_indices n draws)
          \<le> length (map (\<lambda>x. int_of_float (clip x 0 (real_of_int (int n - 1)))) draws)"
    unfolding sample_indices_def unique_def length_sort by (rule length_remdups_leq)
  then show "length (sample_indices n draws) \<le> length draws" by simp
qed

lemma index_all_in_range:
  assumes "\<forall>i \<in> set is. 0 \<le> i \<and> i < int (length xs)"
  shows "index_all xs is = Inr (map (\<lambda>i. xs ! nat i) is)"
  using assms by (induction "is") (simp_all add: py_index_def)

lemma example_collect:
  "collect_channels example_api example_lib (str_int 20) 1000 [] None = Some ([], example_candidates)"
  "collect_channels example_api example_lib (str_int 20) 3 [] None = Some ([], example_candidates)"
  by code_simp+

lemma example_sorted:
  "sort_by_subscribers example_candidates
     = [example_summary ''UC2'' 5000, example_summary ''UC1'' 1000,
        example_summary ''UC4'' 700, example_summary ''UC3'' 20]"
  by code_simp

lemma example_draws:
  "random_normal example_lib 0 (real (length example_candidates) / 4) 3 = Inr [- 1, 1, 3]"
  by (simp add: example_lib_def example_random_normal_def example_candidates_def
        numeral_eq_Suc upt_rec)

lemma example_sample:
  "sample_channels example_lib example_candidates 3
     = Inr [example_summary ''UC2'' 5000, example_summary ''UC1'' 1000, example_summary ''UC3'' 20]"
  by code_simp

section \<open>More candidates than the sample size (C9)\<close>

text \<open>
  C9. When there are more candidates than the sample size and the generator returns
  that many draws, the result is read from the sorted candidates at a list of
  positions that are pairwise different, increasing, inside the list and at most
  sample-size many; so every returned channel is one of the candidates.
\<close>

theorem sample_within_candidates:
  assumes more: "sample_size < int (length candidates)"
    and draw: "random_normal lib 0 (real (length candidates) / 4) sample_size = Inr draws"
    and count: "int (length draws) = sample_size"
  shows "(\<exists>idx. sample_channels lib candidates sample_size
                 = Inr (map (\<lambda>i. sort_by_subscribers candidates ! i) idx)
               \<and> distinct idx \<and> sorted idx
               \<and> (\<forall>i \<in> set idx. i < length candidates)
               \<and> int (length idx) \<le> sample_size
               \<and> set (map (\<lambda>i. sort_by_subscribers candidates ! i) idx) \<subseteq> set candidates)
         \<and> (collect_channels api lib (str_int category) sample_size [] None = Some (out, candidates) \<longrightarrow>
              get_top_channels_by_category api lib category sample_size
                = Some (out, sample_channels lib candidates sample_size))"
proof -
  let ?channels = "sort_by_subscribers candidates"
  let ?n = "length candidates"
  let ?is = "sample_indices ?n draws"
  let ?idx = "take (nat sample_size) (map nat ?is)"
  have len: "length ?channels = ?n" by (simp add: sort_by_subscribers_def)
  from count have nonneg: "0 \<le> sample_size" by simp
  with more have pos: "0 < ?n" by (cases candidates) simp_all
  note props = sample_indices_props [OF pos, of draws]
  have srt: "sort ?is = ?is" using props(2) by (rule sorted_sort_id)
  have all: "index_all ?channels ?is = Inr (map (\<lambda>i. ?channels ! nat i) ?is)"
    using props(3) by (intro index_all_in_range) (simp add: len)
  have run: "sample_channels lib candidates sample_size
               = Inr (map (\<lambda>i. ?channels ! i) ?idx)"
    using more draw nonneg
    by (simp add: sample_channels_def Let_def len srt all py_take_def take_map o_def)
  have inj: "inj_on nat (set ?is)"
    using props(3) by (intro inj_onI) (simp add: nat_eq_iff2)
  have d: "distinct ?idx"
    using props(1) inj by (intro distinct_take) (simp add: distinct_map)
  have s: "sorted ?idx"
  proof -
    have "sorted (map nat ?is)"
      using props(2) by (simp add: sorted_map sorted_wrt_mono_rel [of _ "(\<le>)" "\<lambda>x y. nat x \<le> nat y"])
    then show ?thesis by (rule sorted_wrt_take)
  qed
  have b: "\<forall>i \<in> set ?idx. i < ?n"
  proof
    fix i assume "i \<in> set ?idx"
    then have "i \<in> set (map nat ?is)" by (rule in_set_takeD)
    with props(3) show "i < ?n" by auto
  qed
  have l: "int (length ?idx) \<le> sample_size" using nonneg by simp
  have sub: "set (map (\<lambda>i. ?channels ! i) ?idx) \<subseteq> set candidates"
  proof -
    have "set (map (\<lambda>i. ?channels ! i) ?idx) \<subseteq> set ?channels"
      using b len by (auto dest: in_set_takeD)
    then show ?thesis by (simp add: sort_by_subscribers_def)
  qed
  have top: "get_top_channels_by_category api lib category sample_size
                = Some (out, sample_channels lib candidates sample_size)"
    if "collect_channels api lib (str_int category) sample_size [] None = Some (out, candidates)"
    using that by (simp add: get_top_channels_by_category_def)
  from run d s b l sub have "\<exists>idx. sample_channels lib candidates sample_size
                 = Inr (map (\<lambda>i. sort_by_subscribers candidates ! i) idx)
               \<and> distinct idx \<and> sorted idx
               \<and> (\<forall>i \<in> set idx. i < length candidates)
               \<and> int (length idx) \<le> sample_size
               \<and> set (map (\<lambda>i. sort_by_subscribers candidates ! i) idx) \<subseteq> set candidates"
    by blast
  with top show ?thesis by blast
qed

text \<open>
  Four candidates and sample size 3, with the draws -1, 1 and 3 of the example
  generator: positions 0, 1 and 3 of the sorted list.
\<close>

theorem sample_within_candidates_witness:
  "get_top_channels_by_category example_api example_lib 20 3
     = Some ([], Inr (map (\<lambda>i. sort_by_subscribers example_candidates ! i) [0, 1, 3]))
   \<and> sort_by_subscribers example_candidates
     = [example_summary ''UC2'' 5000, example_summary ''UC1'' 1000,
        example_summary ''UC4'' 700, example_summary ''UC3'' 20]
   \<and> length [0 :: nat, 1, 3] \<le> 3"
proof -
  have more: "3 < int (length example_candidates)"
    by (simp add: example_candidates_def)
  have count: "int (length [- 1, 1, 3 :: real]) = 3" by simp
  from sample_within_candidates [OF more example_draws count, of example_api 20 "[]"]
    example_collect(2)
  have "get_top_channels_by_category example_api example_lib 20 3
          = Some ([], sample_channels example_lib example_candidates 3)"
    by blast
  with example_sample example_sorted show ?thesis by simp
qed

section \<open>Exceptions of the loop body and of the page requests\<close>


lemma process_item_detail_error:
  "si_video_id item = Some vid
   \<Longrightarrow> videos_list api ''statistics,snippet,contentDetails'' vid = Inl e
   \<Longrightarrow> process_item api lib env item = Inl e"
  by (simp add: process_item_def)




lemma fetch_loop_search_error:
  "int (length acc) < fe_max_videos env
   \<Longrightarrow> search_channel_videos api (page_request env acc tok) = Inl e
   \<Longrightarrow> fetch_loop api lib env acc tok = Some (acc, Some e)"
  by (subst fetch_loop.simps) simp

lemma fetch_loop_item_error:
  assumes "search_channel_videos api (page_request env acc tok) = Inr response"
    and "get_default (sr_items response) [] = oks @ bad # rest"
    and "\<forall>item \<in> set oks. \<forall>e'. process_item api lib env item \<noteq> Inl e'"
    and "process_item api lib env bad = Inl e"
    and "int (length acc + length (records_of api lib env oks)) < fe_max_videos env"
  shows "fetch_loop api lib env acc tok = Some (acc @ records_of api lib env oks, Some e)"
proof -
  from assms have "process_items api lib env acc (oks @ bad # rest)
                 = (Raised e, acc @ records_of api lib env oks)"
    by (intro process_items_raise) simp_all
  moreover from assms have "int (length acc) < fe_max_videos env" by simp
  ultimately show ?thesis using assms by (subst fetch_loop.simps) simp
qed

lemma fetch_channel_videos_logs_error:
  "fetch_loop api lib (initial_env api lib cid pa pb m category) [] None = Some (rows, Some e)
   \<Longrightarrow> fetch_channel_videos api lib cid pa pb m category
       = Some (fst (fetch_subscriber_count api lib cid) @ [Log ''Error fetching videos: '' e], Inr rows)"
  by (simp add: fetch_channel_videos_def)

lemma collect_channels_search_error:
  "int (length channels) < sample_size * 2
   \<Longrightarrow> search_top_channels api cat tok = Inl e
   \<Longrightarrow> collect_channels api lib cat sample_size channels tok
       = Some ([Log ''Error fetching channels: '' e], channels)"
  by (subst collect_channels.simps) (simp add: sampler_page_def)

lemma collect_channels_stats_error:
  "int (length channels) < sample_size * 2
   \<Longrightarrow> search_top_channels api cat tok = Inr found
   \<Longrightarrow> csr_items found = Some hits
   \<Longrightarrow> channel_ids_of hits = Inr ids
   \<Longrightarrow> channels_list api ''statistics,snippet'' (join '','' ids) = Inl e
   \<Longrightarrow> collect_channels api lib cat sample_size channels tok
       = Some ([Log ''Error fetching channels: '' e], channels)"
  by (subst collect_channels.simps) (simp add: sampler_page_def)

lemma get_top_channels_by_category_collected:
  "collect_channels api lib (str_int category) sample_size [] None = Some (out, channels)
   \<Longrightarrow> get_top_channels_by_category api lib category sample_size
       = Some (out, sample_channels lib channels sample_size)"
  by (simp add: get_top_channels_by_category_def)

section \<open>Errors inside the page loop (C5)\<close>





lemma example_page_items:
  "map example_item [0..<3] = [example_item 0, example_item 1] @ example_item 2 # []"
  "map example_item [0..<3] = [example_item 0] @ example_item 1 # [example_item 2]"
  by code_simp+

lemma detail_error_facts:
  "process_item detail_error_api example_lib
     (initial_env detail_error_api example_lib ''UC1'' ''a'' ''b'' 10 None) (example_item 0)
     = Inr (Some (example_record 0 ''20'' ''gaming'' False))"
  "process_item detail_error_api example_lib
     (initial_env detail_error_api example_lib ''UC1'' ''a'' ''b'' 10 None) (example_item 1)
     = Inr (Some (example_record 1 ''10'' ''music'' True))"
  "si_video_id (example_item 2) = Some ''v2''"
  "fst (fetch_subscriber_count detail_error_api example_lib ''UC1'') = []"
  by code_simp+






section \<open>Where upstream errors are handled (C4)\<close>

text \<open>
  C4, as amended. An exception of an upstream request is caught, printed and replaced
  by a value at these call sites: the search of \<^verbatim>\<open>get_channel_id\<close> and the detail
  request of \<^verbatim>\<open>get_video_category\<close> give None; the statistics request before the
  page loop of \<^verbatim>\<open>fetch_channel_videos\<close> gives the subscriber count 0; the search
  request and the detail request inside that page loop end it, the line
  \<^verbatim>\<open>Error fetching videos\<close> is printed and the records held so far are returned,
  so that \<^verbatim>\<open>fetch_channel_videos\<close> never raises; the search request and the
  statistics request of the sampler's loop end it with the line
  \<^verbatim>\<open>Error fetching channels\<close>, and the channels held so far go on to the
  sampling step. The comment probe is caught without a message.
  \<^verbatim>\<open>get_guide_categories\<close> and \<^verbatim>\<open>search_channels_by_category\<close> have no
  handler: there the exception reaches the caller and nothing is printed.
\<close>

theorem upstream_errors_by_call_site:
  "(search_channel_by_name api name = Inl e \<longrightarrow>
      get_channel_id api name = ([Log ''Error finding channel ID: '' e], Inr None))
   \<and> (videos_list api ''snippet'' vid = Inl e \<longrightarrow>
      get_video_category api vid = ([Log ''Error getting video category: '' e], Inr None))
   \<and> (channels_list api ''statistics'' cid = Inl e \<longrightarrow>
      fetch_subscriber_count api lib cid = ([Log ''Error fetching channel statistics: '' e], 0))
   \<and> (int (length acc) < fe_max_videos env
        \<and> search_channel_videos api (page_request env acc tok) = Inl e \<longrightarrow>
      fetch_loop api lib env acc tok = Some (acc, Some e))
   \<and> (comment_threads_list api vid = Inl e \<longrightarrow> \<not> probe_comments api vid)
   \<and> (fetch_channel_videos api lib cid pa pb m category = Some (out, res) \<longrightarrow>
      (\<exists>rows. res = Inr rows))
   \<and> (int (length channels) < sample_size * 2
        \<and> search_top_channels api cat tok = Inl e \<longrightarrow>
      collect_channels api lib cat sample_size channels tok
        = Some ([Log ''Error fetching channels: '' e], channels))
   \<and> (video_categories_list api part region = Inl e \<longrightarrow>
      get_guide_categories api part region = ([], Inl e))
   \<and> (search_category_channels api cat max_results = Inl e \<longrightarrow>
      search_channels_by_category api cat max_results = ([], Inl e))
   \<and> (search_channel_videos api (page_request env acc tok) = Inr response
        \<and> get_default (sr_items response) [] = oks @ bad # rest
        \<and> (\<forall>item \<in> set oks. \<forall>e'. process_item api lib env item \<noteq> Inl e')
        \<and> si_video_id bad = Some bad_id
        \<and> videos_list api ''statistics,snippet,contentDetails'' bad_id = Inl e
        \<and> int (length acc + length (records_of api lib env oks)) < fe_max_videos env \<longrightarrow>
      fetch_loop api lib env acc tok = Some (acc @ records_of api lib env oks, Some e))
   \<and> (fetch_loop api lib (initial_env api lib cid pa pb m category) [] None
          = Some (partial, Some e) \<longrightarrow>
      fetch_channel_videos api lib cid pa pb m category
        = Some (fst (fetch_subscriber_count api lib cid) @ [Log ''Error fetching videos: '' e],
                Inr partial))
   \<and> (int (length channels) < sample_size * 2
        \<and> search_top_channels api cat tok = Inr found
        \<and> csr_items found = Some hits
        \<and> channel_ids_of hits = Inr ids
        \<and> channels_list api ''statistics,snippet'' (join '','' ids) = Inl e \<longrightarrow>
      collect_channels api lib cat sample_size channels tok
        = Some ([Log ''Error fetching channels: '' e], channels))
   \<and> (collect_channels api lib (str_int wanted) sample_size [] None = Some (printed, channels) \<longrightarrow>
      get_top_channels_by_category api lib wanted sample_size
        = Some (printed, sample_channels lib channels sample_size))"
proof -
  have a: "get_channel_id api name = ([Log ''Error finding channel ID: '' e], Inr None)"
    if "search_channel_by_name api name = Inl e"
    using that by (simp add: get_channel_id_def get_channel_id_try_def)
  have b: "get_video_category api vid = ([Log ''Error getting video category: '' e], Inr None)"
    if "videos_list api ''snippet'' vid = Inl e"
    using that by (simp add: get_video_category_def get_video_category_try_def)
  have c: "fetch_subscriber_count api lib cid = ([Log ''Error fetching channel statistics: '' e], 0)"
    if "channels_list api ''statistics'' cid = Inl e"
    using that by (simp add: fetch_subscriber_count_def fetch_subscriber_count_try_def)
  have d: "fetch_loop api lib env acc tok = Some (acc, Some e)"
    if "int (length acc) < fe_max_videos env
        \<and> search_channel_videos api (page_request env acc tok) = Inl e"
    using that by (simp add: fetch_loop_search_error)
  have f: "\<not> probe_comments api vid" if "comment_threads_list api vid = Inl e"
    using that by (simp add: probe_comments_def)
  have g: "\<exists>rows. res = Inr rows"
    if "fetch_channel_videos api lib cid pa pb m category = Some (out, res)"
    using fetch_channel_videos_rows [OF that] by blast
  have h: "collect_channels api lib cat sample_size channels tok
        = Some ([Log ''Error fetching channels: '' e], channels)"
    if "int (length channels) < sample_size * 2 \<and> search_top_channels api cat tok = Inl e"
    using that by (simp add: collect_channels_search_error)
  have i: "get_guide_categories api part region = ([], Inl e)"
    if "video_categories_list api part region = Inl e"
    using that by (simp add: get_guide_categories_def)
  have j: "search_channels_by_category api cat max_results = ([], Inl e)"
    if "search_category_channels api cat max_results = Inl e"
    using that by (simp add: search_channels_by_category_def)
  have k: "fetch_loop api lib env acc tok = Some (acc @ records_of api lib env oks, Some e)"
    if that: "search_channel_videos api (page_request env acc tok) = Inr response
        \<and> get_default (sr_items response) [] = oks @ bad # rest
        \<and> (\<forall>item \<in> set oks. \<forall>e'. process_item api lib env item \<noteq> Inl e')
        \<and> si_video_id bad = Some bad_id
        \<and> videos_list api ''statistics,snippet,contentDetails'' bad_id = Inl e
        \<and> int (length acc + length (records_of api lib env oks)) < fe_max_videos env"
  proof -
    from that have "process_item api lib env bad = Inl e"
      by (intro process_item_detail_error [where vid = bad_id]) blast+
    then show ?thesis
      by (rule fetch_loop_item_error [where response = response and rest = rest and bad = bad, rotated 3])
         (use that in blast)+
  qed
  have l: "fetch_channel_videos api lib cid pa pb m category
        = Some (fst (fetch_subscriber_count api lib cid) @ [Log ''Error fetching videos: '' e],
                Inr partial)"
    if "fetch_loop api lib (initial_env api lib cid pa pb m category) [] None
          = Some (partial, Some e)"
    using that by (rule fetch_channel_videos_logs_error)
  have n: "collect_channels api lib cat sample_size channels tok
        = Some ([Log ''Error fetching channels: '' e], channels)"
    if that: "int (length channels) < sample_size * 2
        \<and> search_top_channels api cat tok = Inr found
        \<and> csr_items found = Some hits
        \<and> channel_ids_of hits = Inr ids
        \<and> channels_list api ''statistics,snippet'' (join '','' ids) = Inl e"
    by (rule collect_channels_stats_error [where found = found and hits = hits and ids = ids])
       (use that in blast)+
  have p: "get_top_channels_by_category api lib wanted sample_size
        = Some (printed, sample_channels lib channels sample_size)"
    if "collect_channels api lib (str_int wanted) sample_size [] None = Some (printed, channels)"
    using that by (rule get_top_channels_by_category_collected)
  from a b c d f g h i j k l n p show ?thesis by blast
qed

lemma failing_api_requests:
  "search_channel_by_name failing_api name = Inl (HttpError ''quotaExceeded'')"
  "videos_list failing_api part vid = Inl (HttpError ''quotaExceeded'')"
  "channels_list failing_api part cid = Inl (HttpError ''quotaExceeded'')"
  "search_top_channels failing_api cat tok = Inl (HttpError ''quotaExceeded'')"
  "video_categories_list failing_api part region = Inl (HttpError ''quotaExceeded'')"
  "search_category_channels failing_api cat k = Inl (HttpError ''quotaExceeded'')"
  "comment_threads_list failing_api vid = Inl (HttpError ''quotaExceeded'')"
  by (simp_all add: failing_api_def)

lemma stats_error_facts:
  "channel_ids_of (map example_channel_item [''UC1'', ''UC2'', ''UC3'', ''UC4''])
     = Inr [''UC1'', ''UC2'', ''UC3'', ''UC4'']"
  "sample_channels example_lib [] 2 = Inr []"
  by code_simp+

text \<open>
  On the client whose requests all fail with \<^verbatim>\<open>quotaExceeded\<close> the guarded
  operations print and return, the two unguarded ones raise. On the client whose
  detail request fails for video \<^verbatim>\<open>v2\<close> the two records before it are returned,
  and on the client whose statistics request fails the sampler returns no channel.
\<close>

theorem upstream_errors_by_call_site_witness:
  "get_channel_id failing_api ''known''
     = ([Log ''Error finding channel ID: '' (HttpError ''quotaExceeded'')], Inr None)
   \<and> get_video_category failing_api ''v0''
     = ([Log ''Error getting video category: '' (HttpError ''quotaExceeded'')], Inr None)
   \<and> fetch_subscriber_count failing_api example_lib ''UC1''
     = ([Log ''Error fetching channel statistics: '' (HttpError ''quotaExceeded'')], 0)
   \<and> \<not> probe_comments failing_api ''v0''
   \<and> collect_channels failing_api example_lib ''20'' 2 [] None
     = Some ([Log ''Error fetching channels: '' (HttpError ''quotaExceeded'')], [])
   \<and> get_guide_categories failing_api ''snippet'' ''US'' = ([], Inl (HttpError ''quotaExceeded''))
   \<and> search_channels_by_category failing_api ''20'' 50 = ([], Inl (HttpError ''quotaExceeded''))
   \<and> fetch_channel_videos detail_error_api example_lib ''UC1'' ''a'' ''b'' 10 None
     = Some ([Log ''Error fetching videos: '' (HttpError ''backendError'')],
             Inr [example_record 0 ''20'' ''gaming'' False, example_record 1 ''10'' ''music'' True])
   \<and> get_top_channels_by_category stats_error_api example_lib 20 2
     = Some ([Log ''Error fetching channels: '' (HttpError ''backendError'')], Inr [])"
proof -
  note failing = upstream_errors_by_call_site
    [where api = failing_api and name = "''known''" and e = "HttpError ''quotaExceeded''"
       and vid = "''v0''" and cid = "''UC1''" and lib = example_lib and channels = "[]"
       and sample_size = 2 and cat = "''20''" and tok = None and part = "''snippet''"
       and region = "''US''" and max_results = 50]
  have w1: "get_channel_id failing_api ''known''
     = ([Log ''Error finding channel ID: '' (HttpError ''quotaExceeded'')], Inr None)"
    using failing [THEN conjunct1] by (simp add: failing_api_requests)
  have w2: "get_video_category failing_api ''v0''
     = ([Log ''Error getting video category: '' (HttpError ''quotaExceeded'')], Inr None)"
    using failing [THEN conjunct2, THEN conjunct1] by (simp add: failing_api_requests)
  have w3: "fetch_subscriber_count failing_api example_lib ''UC1''
     = ([Log ''Error fetching channel statistics: '' (HttpError ''quotaExceeded'')], 0)"
    using failing [THEN conjunct2, THEN conjunct2, THEN conjunct1]
    by (simp add: failing_api_requests)
  have w4: "\<not> probe_comments failing_api ''v0''"
    using failing [THEN conjunct2, THEN conjunct2, THEN conjunct2, THEN conjunct2, THEN conjunct1]
    by (simp add: failing_api_requests)
  have w5: "collect_channels failing_api example_lib ''20'' 2 [] None
     = Some ([Log ''Error fetching channels: '' (HttpError ''quotaExceeded'')], [])"
    using failing [THEN conjunct2, THEN conjunct2, THEN conjunct2, THEN conjunct2, THEN conjunct2,
                   THEN conjunct2, THEN conjunct1]
    by (simp add: failing_api_requests)
  have w6: "get_guide_categories failing_api ''snippet'' ''US'' = ([], Inl (HttpError ''quotaExceeded''))"
    using failing [THEN conjunct2, THEN conjunct2, THEN conjunct2, THEN conjunct2, THEN conjunct2,
                   THEN conjunct2, THEN conjunct2, THEN conjunct1]
    by (simp add: failing_api_requests)
  have w7: "search_channels_by_category failing_api ''20'' 50 = ([], Inl (HttpError ''quotaExceeded''))"
    using failing [THEN conjunct2, THEN conjunct2, THEN conjunct2, THEN conjunct2, THEN conjunct2,
                   THEN conjunct2, THEN conjunct2, THEN conjunct2, THEN conjunct1]
    by (simp add: failing_api_requests)
  let ?denv = "initial_env detail_error_api example_lib ''UC1'' ''a'' ''b'' 10 None"
  let ?page = "\<lparr> sr_items = Some (map example_item [0..<3]), sr_next_page_token = Some ''p2'' \<rparr>"
  have d1: "search_channel_videos detail_error_api (page_request ?denv [] None) = Inr ?page"
    by (simp add: detail_error_api_def example_api_def page_request_def)
  have d2: "get_default (sr_items ?page) [] = [example_item 0, example_item 1] @ example_item 2 # []"
    unfolding get_default_def
    by (simp only: search_response.select_convs option.case example_page_items(1))
  have d3: "\<forall>item \<in> set [example_item 0, example_item 1].
              \<forall>e'. process_item detail_error_api example_lib ?denv item \<noteq> Inl e'"
    by (simp add: detail_error_facts del: One_nat_def)
  have d4: "videos_list detail_error_api ''statistics,snippet,contentDetails'' ''v2''
              = Inl (HttpError ''backendError'')"
    by (simp add: detail_error_api_def)
  have d5: "records_of detail_error_api example_lib ?denv [example_item 0, example_item 1]
              = [example_record 0 ''20'' ''gaming'' False, example_record 1 ''10'' ''music'' True]"
    by (simp add: records_of_Cons detail_error_facts del: One_nat_def)
  have dmx: "fe_max_videos ?denv = 10" by (simp add: initial_env_def)
  have d6: "int (length ([] :: video_record list)
              + length (records_of detail_error_api example_lib ?denv [example_item 0, example_item 1]))
            < fe_max_videos ?denv"
    by (simp add: d5 dmx del: One_nat_def)
  from d1 d2 d3 detail_error_facts(3) d4 d6 upstream_errors_by_call_site
    [where acc = "[]" and env = ?denv and api = detail_error_api and tok = None
       and e = "HttpError ''backendError''" and lib = example_lib and response = ?page
       and oks = "[example_item 0, example_item 1]" and bad = "example_item 2" and rest = "[]"
       and bad_id = "''v2''",
     THEN conjunct2, THEN conjunct2, THEN conjunct2, THEN conjunct2, THEN conjunct2,
     THEN conjunct2, THEN conjunct2, THEN conjunct2, THEN conjunct2, THEN conjunct1]
  have "fetch_loop detail_error_api example_lib ?denv [] None
          = Some ([] @ records_of detail_error_api example_lib ?denv [example_item 0, example_item 1],
                  Some (HttpError ''backendError''))"
    by blast
  then have dloop: "fetch_loop detail_error_api example_lib ?denv [] None
          = Some ([example_record 0 ''20'' ''gaming'' False, example_record 1 ''10'' ''music'' True],
                  Some (HttpError ''backendError''))"
    by (simp add: d5 del: One_nat_def)
  from dloop upstream_errors_by_call_site
    [where api = detail_error_api and e = "HttpError ''backendError''"
       and lib = example_lib and cid = "''UC1''" and pa = "''a''" and pb = "''b''" and m = 10
       and category = None
       and partial = "[example_record 0 ''20'' ''gaming'' False, example_record 1 ''10'' ''music'' True]",
     THEN conjunct2, THEN conjunct2, THEN conjunct2, THEN conjunct2, THEN conjunct2,
     THEN conjunct2, THEN conjunct2, THEN conjunct2, THEN conjunct2, THEN conjunct2,
     THEN conjunct1]
  have w8: "fetch_channel_videos detail_error_api example_lib ''UC1'' ''a'' ''b'' 10 None
     = Some ([Log ''Error fetching videos: '' (HttpError ''backendError'')],
             Inr [example_record 0 ''20'' ''gaming'' False, example_record 1 ''10'' ''music'' True])"
    by (simp add: detail_error_facts del: One_nat_def)
  let ?hits = "map example_channel_item [''UC1'', ''UC2'', ''UC3'', ''UC4'']"
  let ?found = "\<lparr> csr_items = Some ?hits, csr_next_page_token = None \<rparr>"
  have s1: "int (length ([] :: channel_summary list)) < 2 * 2" by simp
  have s2: "search_top_channels stats_error_api (str_int 20) None = Inr ?found"
    by (simp add: stats_error_api_def example_api_def)
  have s3: "csr_items ?found = Some ?hits" by simp
  have s5: "channels_list stats_error_api ''statistics,snippet''
              (join '','' [''UC1'', ''UC2'', ''UC3'', ''UC4'']) = Inl (HttpError ''backendError'')"
    by (simp add: stats_error_api_def)
  from s1 s2 s3 stats_error_facts(1) s5 upstream_errors_by_call_site
    [where api = stats_error_api and lib = example_lib and cat = "str_int 20" and tok = None
       and channels = "[]" and sample_size = 2 and found = ?found and hits = ?hits
       and ids = "[''UC1'', ''UC2'', ''UC3'', ''UC4'']" and e = "HttpError ''backendError''",
     THEN conjunct2, THEN conjunct2, THEN conjunct2, THEN conjunct2, THEN conjunct2,
     THEN conjunct2, THEN conjunct2, THEN conjunct2, THEN conjunct2, THEN conjunct2,
     THEN conjunct2, THEN conjunct1]
  have sloop: "collect_channels stats_error_api example_lib (str_int 20) 2 [] None
     = Some ([Log ''Error fetching channels: '' (HttpError ''backendError'')], [])"
    by blast
  from sloop upstream_errors_by_call_site
    [where api = stats_error_api and lib = example_lib and wanted = 20 and sample_size = 2
       and channels = "[]"
       and printed = "[Log ''Error fetching channels: '' (HttpError ''backendError'')]",
     THEN conjunct2, THEN conjunct2, THEN conjunct2, THEN conjunct2, THEN conjunct2,
     THEN conjunct2, THEN conjunct2, THEN conjunct2, THEN conjunct2, THEN conjunct2,
     THEN conjunct2, THEN conjunct2]
  have w9: "get_top_channels_by_category stats_error_api example_lib 20 2
     = Some ([Log ''Error fetching channels: '' (HttpError ''backendError'')], Inr [])"
    by (simp add: stats_error_facts)
  from w1 w2 w3 w4 w5 w6 w7 w8 w9 show ?thesis by blast
qed

text \<open>
  C4 as stated fails for the two operations it names: on the same client the
  category request and the channel search raise, and both operations raise the same
  exception to their caller, with nothing printed. It also fails for the comment
  probe, whose exception on video \<^verbatim>\<open>v0\<close> of \<open>example_api\<close> is caught but leaves
  no line in the output.
\<close>

theorem unguarded_operations_counterexample:
  "video_categories_list failing_api ''snippet'' ''US'' = Inl (HttpError ''quotaExceeded'')
   \<and> get_guide_categories failing_api ''snippet'' ''US'' = ([], Inl (HttpError ''quotaExceeded''))
   \<and> search_category_channels failing_api ''20'' 50 = Inl (HttpError ''quotaExceeded'')
   \<and> search_channels_by_category failing_api ''20'' 50 = ([], Inl (HttpError ''quotaExceeded''))
   \<and> comment_threads_list example_api ''v0'' = Inl (HttpError ''commentsDisabled'')
   \<and> map_option fst (fetch_channel_videos example_api example_lib ''UC1'' ''a'' ''b'' 4 None)
     = Some []"
proof -
  have probe: "comment_threads_list example_api ''v0'' = Inl (HttpError ''commentsDisabled'')"
    by (simp add: example_api_def)
  have silent: "map_option fst (fetch_channel_videos example_api example_lib ''UC1'' ''a'' ''b'' 4 None)
     = Some []"
    by (simp add: example_run_4)
  from probe silent show ?thesis
    by (simp add: failing_api_requests get_guide_categories_def search_channels_by_category_def)
qed

section \<open>Fewer candidates than the sample size (C8)\<close>

text \<open>
  C8, as amended. When the accumulated candidates are no more than the sample size,
  the function returns all of them, whatever the random generator is, in the order
  of the sort by subscriber count: the same channels with the same multiplicities,
  largest count first, channels of equal count in the order of accumulation. The list
  is the accumulated one itself when that was already in this order. Nothing is drawn
  and nothing can raise.
\<close>

theorem small_candidate_list_returned_whole:
  assumes "int (length candidates) \<le> sample_size"
  shows "sample_channels lib candidates sample_size = Inr (sort_by_subscribers candidates)
         \<and> mset (sort_by_subscribers candidates) = mset candidates
         \<and> sorted_wrt (\<lambda>a b. ch_subscriber_count a \<ge> ch_subscriber_count b)
              (sort_by_subscribers candidates)
         \<and> filter (\<lambda>c. ch_subscriber_count c = k) (sort_by_subscribers candidates)
              = filter (\<lambda>c. ch_subscriber_count c = k) candidates
         \<and> (sorted (map (\<lambda>c. - ch_subscriber_count c) candidates) \<longrightarrow>
              sample_channels lib candidates sample_size = Inr candidates)
         \<and> (collect_channels api lib (str_int category) sample_size [] None = Some (out, candidates) \<longrightarrow>
              get_top_channels_by_category api lib category sample_size
                = Some (out, Inr (sort_by_subscribers candidates)))"
proof -
  from assms have run: "sample_channels lib candidates sample_size = Inr (sort_by_subscribers candidates)"
    by (simp add: sample_channels_def Let_def sort_by_subscribers_def)
  have ms: "mset (sort_by_subscribers candidates) = mset candidates"
    by (simp add: sort_by_subscribers_def)
  have "sorted (map (\<lambda>c. - ch_subscriber_count c) (sort_by_subscribers candidates))"
    unfolding sort_by_subscribers_def by (rule sorted_sort_key)
  then have desc: "sorted_wrt (\<lambda>a b. ch_subscriber_count a \<ge> ch_subscriber_count b)
              (sort_by_subscribers candidates)"
    by (simp add: sorted_map)
  have "filter (\<lambda>c. - ch_subscriber_count c = - k) (sort_by_subscribers candidates)
          = filter (\<lambda>c. - ch_subscriber_count c = - k) candidates"
    unfolding sort_by_subscribers_def by (rule sort_key_stable)
  then have stable: "filter (\<lambda>c. ch_subscriber_count c = k) (sort_by_subscribers candidates)
              = filter (\<lambda>c. ch_subscriber_count c = k) candidates"
    by simp
  have same: "sample_channels lib candidates sample_size = Inr candidates"
    if "sorted (map (\<lambda>c. - ch_subscriber_count c) candidates)"
    using run sort_key_id_if_sorted [OF that] by (simp add: sort_by_subscribers_def)
  have top: "get_top_channels_by_category api lib category sample_size
                = Some (out, Inr (sort_by_subscribers candidates))"
    if "collect_channels api lib (str_int category) sample_size [] None = Some (out, candidates)"
    using that run by (simp add: get_top_channels_by_category_def)
  from run ms desc stable same top show ?thesis by blast
qed

text \<open>
  The four candidates of \<open>example_api\<close> with sample size 1000 come back sorted, and
  two candidates already in order come back as they are.
\<close>

theorem small_candidate_list_returned_whole_witness:
  "get_top_channels_by_category example_api example_lib 20 1000
     = Some ([], Inr [example_summary ''UC2'' 5000, example_summary ''UC1'' 1000,
                      example_summary ''UC4'' 700, example_summary ''UC3'' 20])
   \<and> sample_channels example_lib
        [example_summary ''UC2'' 5000, example_summary ''UC1'' 1000] 1000
     = Inr [example_summary ''UC2'' 5000, example_summary ''UC1'' 1000]"
proof -
  have small: "int (length example_candidates) \<le> 1000"
    by (simp add: example_candidates_def)
  have two: "int (length [example_summary ''UC2'' 5000, example_summary ''UC1'' 1000]) \<le> 1000"
    by simp
  have ordered: "sorted (map (\<lambda>c. - ch_subscriber_count c)
                   [example_summary ''UC2'' 5000, example_summary ''UC1'' 1000])"
    by (simp add: example_summary_def)
  from small_candidate_list_returned_whole
         [OF small, where lib = example_lib and api = example_api and category = 20 and out = "[]"]
    example_collect(1) example_sorted
  have first: "get_top_channels_by_category example_api example_lib 20 1000
     = Some ([], Inr [example_summary ''UC2'' 5000, example_summary ''UC1'' 1000,
                      example_summary ''UC4'' 700, example_summary ''UC3'' 20])"
    by simp
  from small_candidate_list_returned_whole [OF two, where lib = example_lib] ordered
  have second: "sample_channels example_lib
        [example_summary ''UC2'' 5000, example_summary ''UC1'' 1000] 1000
     = Inr [example_summary ''UC2'' 5000, example_summary ''UC1'' 1000]"
    by blast
  from first second show ?thesis by simp
qed

lemma example_sample_small:
  "sample_channels example_lib example_candidates 1000
     = Inr [example_summary ''UC2'' 5000, example_summary ''UC1'' 1000,
            example_summary ''UC4'' 700, example_summary ''UC3'' 20]"
  by code_simp

text \<open>
  C8 as stated fails: the four candidates are accumulated in the order \<^verbatim>\<open>UC1\<close>,
  \<^verbatim>\<open>UC2\<close>, \<^verbatim>\<open>UC3\<close>, \<^verbatim>\<open>UC4\<close>, and with sample size 1000 they are returned
  in the order \<^verbatim>\<open>UC2\<close>, \<^verbatim>\<open>UC1\<close>, \<^verbatim>\<open>UC4\<close>, \<^verbatim>\<open>UC3\<close>.
\<close>

theorem accumulation_order_counterexample:
  "collect_channels example_api example_lib (str_int 20) 1000 [] None
     = Some ([], [example_summary ''UC1'' 1000, example_summary ''UC2'' 5000,
                  example_summary ''UC3'' 20, example_summary ''UC4'' 700])
   \<and> int (length [example_summary ''UC1'' 1000, example_summary ''UC2'' 5000,
                   example_summary ''UC3'' 20, example_summary ''UC4'' 700]) \<le> 1000
   \<and> get_top_channels_by_category example_api example_lib 20 1000
     = Some ([], Inr [example_summary ''UC2'' 5000, example_summary ''UC1'' 1000,
                      example_summary ''UC4'' 700, example_summary ''UC3'' 20])
   \<and> get_top_channels_by_category example_api example_lib 20 1000
     \<noteq> Some ([], Inr [example_summary ''UC1'' 1000, example_summary ''UC2'' 5000,
                       example_summary ''UC3'' 20, example_summary ''UC4'' 700])"
proof -
  have collected: "collect_channels example_api example_lib (str_int 20) 1000 [] None
     = Some ([], [example_summary ''UC1'' 1000, example_summary ''UC2'' 5000,
                  example_summary ''UC3'' 20, example_summary ''UC4'' 700])"
    using example_collect(1) by (simp add: example_candidates_def)
  have returned: "get_top_channels_by_category example_api example_lib 20 1000
     = Some ([], Inr [example_summary ''UC2'' 5000, example_summary ''UC1'' 1000,
                      example_summary ''UC4'' 700, example_summary ''UC3'' 20])"
    using example_collect(1) example_sample_small
    by (simp add: get_top_channels_by_category_def)
  have differ: "example_summary ''UC2'' 5000 \<noteq> example_summary ''UC1'' 1000"
    by (simp add: example_summary_def)
  from collected returned differ show ?thesis by simp
qed

end
